theory Spec2Isabelle
  imports Main "HOL-Library.Sublist"
begin

section \<open>The provisioning server of the Raspberry Pi (provision\_server.py)\<close>

text \<open>
  The server is a Flask application with three routes. Everything it does besides
  computing a reply is an effect on the device: it runs shell commands, sleeps, writes
  three files and posts once to the registration endpoint. The model makes these effects
  explicit. A \<open>world\<close> holds the files the process itself writes and the log of
  everything it did, in order; an \<open>env\<close> says how the device answers: what a shell
  command does when it is the \<open>t\<close>-th effect of the run, whether a file can be opened
  for writing then, and what the registration endpoint returns. Each operation takes a
  world and returns its result with the new world; a Python exception is the \<open>Inl\<close>
  of a sum.

  What is left out: the \<open>print\<close> calls (they only log), the effect of a shell
  command on the system (the model records that it was issued and what it returned; the
  commands of this program do not touch the two marker files), and request fields that
  are JSON values other than strings and null.
\<close>

subsection \<open>Values, replies, exceptions\<close>

text \<open>A JSON value of a reply or of the registration payload.\<close>

datatype jv = JNull | JBool bool | JStr string

text \<open>\<open>jsonify(d), status\<close>: the body's members in the order written, and the status.\<close>

type_synonym reply = "(string \<times> jv) list \<times> int"

text \<open>An exception caught by \<open>except Exception as e\<close>, with \<open>str(e)\<close>.\<close>

datatype exn = PyException string

fun str_of :: "exn \<Rightarrow> string" where
  "str_of (PyException msg) = msg"

subsection \<open>The device: environment, log and files\<close>

text \<open>What \<open>subprocess.run\<close> does with a command: it completes with a return code
  and a standard output, or it raises \<open>TimeoutExpired\<close>, or it raises something else.\<close>

datatype proc_outcome = Completed int string | TimeoutExpired | SpawnFailed

text \<open>What \<open>requests.post\<close> does: a response with its status code and text, a
  \<open>requests.RequestException\<close> (connection error, timeout), or another exception.\<close>

datatype post_outcome = Response int string | RequestException string | OtherException string

datatype event =
    Exec string proc_outcome
  | Sleep nat
  | Wrote string string
  | OpenFailed string
  | HttpPost string "(string \<times> jv) list" "(string \<times> string) list" nat post_outcome

record world =
  files :: "string \<rightharpoonup> string"
  trace :: "event list"

record env =
  sh_outcome :: "nat \<Rightarrow> string \<Rightarrow> proc_outcome"
  open_error :: "nat \<Rightarrow> string \<Rightarrow> string option"
  post_outcome :: "nat \<Rightarrow> (string \<times> jv) list \<Rightarrow> post_outcome"
  EDGE_FINISH_URL :: string
  SERVICE_ROLE_KEY :: string

text \<open>The logical time of a world: the number of effects so far.\<close>

definition clock :: "world \<Rightarrow> nat" where
  "clock w = length (trace w)"

definition emit :: "event \<Rightarrow> world \<Rightarrow> world" where
  "emit e w = w\<lparr>trace := trace w @ [e]\<rparr>"

text \<open>The configuration constants of the module.\<close>

definition AP_NETWORK :: string where
  "AP_NETWORK = ''EVVOS_0001''"

definition WLAN_INTERFACE :: string where
  "WLAN_INTERFACE = ''wlan0''"

definition AP_RESTORED_FILE :: string where
  "AP_RESTORED_FILE = ''/tmp/evvos_ap_restored''"

definition PROVISIONED_FILE :: string where
  "PROVISIONED_FILE = ''/etc/evvos_provisioned''"

definition tmp_path :: string where
  "tmp_path = ''/tmp/wpa_supplicant_tmp.conf''"

subsection \<open>run\<close>

record completed_process =
  returncode :: int
  stdout :: string

text \<open>
  \<open>run(cmd, check, timeout)\<close> returns the completed process, and \<open>None\<close> when
  \<open>subprocess.run\<close> raised: on a timeout, on any other exception, and with
  \<open>check=True\<close> on a return code other than zero (\<open>CalledProcessError\<close>). It never
  raises.
\<close>

definition run_result :: "bool \<Rightarrow> proc_outcome \<Rightarrow> completed_process option" where
  "run_result check out =
     (case out of
        Completed rc txt \<Rightarrow>
          if check \<and> rc \<noteq> 0 then None
          else Some \<lparr>returncode = rc, stdout = txt\<rparr>
      | TimeoutExpired \<Rightarrow> None
      | SpawnFailed \<Rightarrow> None)"

definition run :: "env \<Rightarrow> string \<Rightarrow> bool \<Rightarrow> world \<Rightarrow> completed_process option \<times> world" where
  "run e cmd check w =
     (let out = sh_outcome e (clock w) cmd
      in (run_result check out, emit (Exec cmd out) w))"

definition sleep :: "nat \<Rightarrow> world \<Rightarrow> world" where
  "sleep secs w = emit (Sleep secs) w"

text \<open>
  \<open>open(path, 'w')\<close> followed by writing \<open>content\<close>: the open raises \<open>OSError\<close>
  when the environment says so and leaves the file as it was; otherwise the file holds
  exactly \<open>content\<close> afterwards.
\<close>

definition write_file :: "env \<Rightarrow> string \<Rightarrow> string \<Rightarrow> world \<Rightarrow> (exn + unit) \<times> world" where
  "write_file e path content w =
     (case open_error e (clock w) path of
        Some msg \<Rightarrow> (Inl (PyException msg), emit (OpenFailed path) w)
      | None \<Rightarrow> (Inr (), emit (Wrote path content) (w\<lparr>files := (files w)(path \<mapsto> content)\<rparr>)))"

subsection \<open>is\_connected\_to\_wifi\<close>

text \<open>Python's \<open>sub in s\<close> on strings.\<close>

fun str_in :: "string \<Rightarrow> string \<Rightarrow> bool" where
  "str_in sub [] = (sub = [])"
| "str_in sub (c # cs) = (prefix sub (c # cs) \<or> str_in sub cs)"

definition probe_cmd :: string where
  "probe_cmd = ''/sbin/ifconfig '' @ WLAN_INTERFACE @ '' || ip addr show '' @ WLAN_INTERFACE"

text \<open>\<open>result and result.stdout\<close> and \<open>"inet " in result.stdout\<close>.\<close>

definition probe_positive :: "completed_process option \<Rightarrow> bool" where
  "probe_positive result =
     (case result of
        None \<Rightarrow> False
      | Some r \<Rightarrow> stdout r \<noteq> [] \<and> str_in ''inet '' (stdout r))"

text \<open>The \<open>for i in range(max_retries)\<close> loop, by the number of iterations left.\<close>

fun poll :: "env \<Rightarrow> nat \<Rightarrow> world \<Rightarrow> bool \<times> world" where
  "poll e 0 w = (False, w)"
| "poll e (Suc n) w =
     (case run e probe_cmd False w of
        (result, w1) \<Rightarrow>
          if probe_positive result then (True, w1)
          else poll e n (sleep 1 w1))"

definition is_connected_to_wifi :: "env \<Rightarrow> int \<Rightarrow> world \<Rightarrow> bool \<times> world" where
  "is_connected_to_wifi e max_retries w = poll e (nat max_retries) w"

subsection \<open>restore\_ap\_mode\<close>

definition restore_ap_mode :: "env \<Rightarrow> world \<Rightarrow> (exn + unit) \<times> world" where
  "restore_ap_mode e w =
     (let w1 = snd (run e ''systemctl start hostapd'' False w);
          w2 = snd (run e ''systemctl start dnsmasq'' False w1)
      in write_file e AP_RESTORED_FILE [] w2)"

subsection \<open>create\_wpa\_config\<close>

definition nl :: char where
  "nl = CHR 0x0A"

definition tab :: char where
  "tab = CHR 0x09"

definition dq :: char where
  "dq = CHR 0x22"

text \<open>The f-string: the two values are put between the double quotes as they are.\<close>

definition create_wpa_config :: "string \<Rightarrow> string \<Rightarrow> string" where
  "create_wpa_config ssid password =
     ''ctrl_interface=DIR=/var/run/wpa_supplicant GROUP=netdev'' @ [nl] @
     ''update_config=1'' @ [nl] @
     ''country=PH'' @ [nl] @
     [nl] @
     ''network={'' @ [nl] @
     [tab] @ ''ssid='' @ [dq] @ ssid @ [dq] @ [nl] @
     [tab] @ ''psk='' @ [dq] @ password @ [dq] @ [nl] @
     [tab] @ ''scan_ssid=1'' @ [nl] @
     ''}'' @ [nl]"

subsection \<open>POST /provision\<close>

text \<open>
  The body of the request as \<open>request.get_json(force=True) or {}\<close> and the
  \<open>data.get\<close> calls see it: a body that is not JSON makes \<open>get_json\<close> raise; a
  value that is falsy (null, false, 0, an empty string, list or object) is replaced by
  the empty dictionary; any other value that is not an object has no \<open>get\<close>, and the
  first \<open>data.get\<close> raises \<open>AttributeError\<close>. A member of the object is a string or
  null.
\<close>

datatype request_body =
    BadJson string
  | FalsyJson
  | NonDict string
  | Dict "string \<rightharpoonup> string option"

definition request_data :: "request_body \<Rightarrow> exn + (string \<rightharpoonup> string option)" where
  "request_data body =
     (case body of
        BadJson msg \<Rightarrow> Inl (PyException msg)
      | FalsyJson \<Rightarrow> Inr Map.empty
      | NonDict msg \<Rightarrow> Inl (PyException msg)
      | Dict d \<Rightarrow> Inr d)"

text \<open>\<open>d.get(k)\<close> and \<open>d.get(k, default)\<close>; a member that is null is \<open>None\<close> in both.\<close>

definition dict_get :: "(string \<rightharpoonup> string option) \<Rightarrow> string \<Rightarrow> string option" where
  "dict_get d k = (case d k of None \<Rightarrow> None | Some v \<Rightarrow> v)"

definition dict_get_default :: "(string \<rightharpoonup> string option) \<Rightarrow> string \<Rightarrow> string \<Rightarrow> string option" where
  "dict_get_default d k dflt = (case d k of None \<Rightarrow> Some dflt | Some v \<Rightarrow> v)"

text \<open>Truth value of a field: \<open>None\<close> and the empty string are false.\<close>

definition truthy :: "string option \<Rightarrow> bool" where
  "truthy v = (case v of None \<Rightarrow> False | Some s \<Rightarrow> s \<noteq> [])"

definition json_of :: "string option \<Rightarrow> jv" where
  "json_of v = (case v of None \<Rightarrow> JNull | Some s \<Rightarrow> JStr s)"

text \<open>The replies of the handler, in the order of the source.\<close>

definition missing_fields_reply :: reply where
  "missing_fields_reply =
     ([(''ok'', JBool False), (''error'', JStr ''Missing fields (token, ssid, password)'')], 400)"

definition connect_failed_reply :: reply where
  "connect_failed_reply =
     ([(''ok'', JBool False),
       (''error'', JStr ''Failed to connect to hotspot. Please check SSID/password and try again.'')],
      400)"

definition edge_failed_reply :: "string \<Rightarrow> reply" where
  "edge_failed_reply txt =
     ([(''ok'', JBool False),
       (''error'', JStr ''Device connection registered but edge function failed''),
       (''detail'', JStr txt)], 500)"

definition edge_unreachable_reply :: "string \<Rightarrow> reply" where
  "edge_unreachable_reply msg =
     ([(''ok'', JBool False),
       (''error'', JStr ''Failed to call edge function''),
       (''detail'', JStr msg)], 500)"

definition success_reply :: reply where
  "success_reply =
     ([(''ok'', JBool True), (''message'', JStr ''Device provisioned successfully'')], 200)"

definition provisioning_failed_reply :: "exn \<Rightarrow> reply" where
  "provisioning_failed_reply ex =
     ([(''ok'', JBool False),
       (''error'', JStr ''Provisioning failed''),
       (''detail'', JStr (str_of ex))], 500)"

definition invalid_request_reply :: "exn \<Rightarrow> reply" where
  "invalid_request_reply ex =
     ([(''ok'', JBool False),
       (''error'', JStr ''Invalid request''),
       (''detail'', JStr (str_of ex))], 400)"

text \<open>Steps 2 to 4: stop the access point, place the configuration, reconfigure.\<close>

definition switch_to_hotspot :: "env \<Rightarrow> world \<Rightarrow> world" where
  "switch_to_hotspot e w =
     (let w1 = snd (run e ''systemctl stop hostapd'' False w);
          w2 = snd (run e ''systemctl stop dnsmasq'' False w1);
          w3 = sleep 1 w2;
          w4 = snd (run e (''cp '' @ tmp_path @ '' /etc/wpa_supplicant/wpa_supplicant.conf'') True w3);
          w5 = snd (run e ''wpa_cli -i wlan0 reconfigure'' False w4)
      in sleep 2 w5)"

text \<open>The call of step 6: \<open>requests.post(EDGE_FINISH_URL, json=payload, headers=headers, timeout=15)\<close>.\<close>

definition requests_post :: "env \<Rightarrow> (string \<times> jv) list \<Rightarrow> world \<Rightarrow> post_outcome \<times> world" where
  "requests_post e payload w =
     (let headers = [(''Content-Type'', ''application/json''),
                     (''Authorization'', ''Bearer '' @ SERVICE_ROLE_KEY e)];
          out = post_outcome e (clock w) payload
      in (out, emit (HttpPost (EDGE_FINISH_URL e) payload headers 15 out) w))"

text \<open>Steps 7 and 8: the marker, then the three \<open>systemctl stop\<close> commands.\<close>

definition mark_provisioned :: "env \<Rightarrow> world \<Rightarrow> (exn + reply) \<times> world" where
  "mark_provisioned e w =
     (case write_file e PROVISIONED_FILE ''1'' w of
        (Inl ex, w1) \<Rightarrow> (Inl ex, w1)
      | (Inr u, w1) \<Rightarrow>
          (let w2 = snd (run e ''systemctl stop hostapd'' False w1);
               w3 = snd (run e ''systemctl stop dnsmasq'' False w2);
               w4 = snd (run e ''systemctl stop provision-server'' False w3)
           in (Inr success_reply, w4)))"

text \<open>A reply that is sent after \<open>restore_ap_mode()\<close>: the exception of the restore
  comes first.\<close>

definition restore_then :: "env \<Rightarrow> reply \<Rightarrow> world \<Rightarrow> (exn + reply) \<times> world" where
  "restore_then e r w =
     (case restore_ap_mode e w of
        (Inl ex, w1) \<Rightarrow> (Inl ex, w1)
      | (Inr u, w1) \<Rightarrow> (Inr r, w1))"

text \<open>Steps 6 to 8, with the inner \<open>try\<close> around the call.\<close>

definition registration_payload ::
  "string \<Rightarrow> string \<Rightarrow> string \<Rightarrow> string option \<Rightarrow> (string \<times> jv) list" where
  "registration_payload token ssid password device_name =
     [(''token'', JStr token), (''ssid'', JStr ssid),
      (''password'', JStr password), (''device_name'', json_of device_name)]"

definition register_device ::
  "env \<Rightarrow> string \<Rightarrow> string \<Rightarrow> string \<Rightarrow> string option \<Rightarrow> world \<Rightarrow> (exn + reply) \<times> world" where
  "register_device e token ssid password device_name w =
     (let payload = registration_payload token ssid password device_name
      in case requests_post e payload w of
           (Response status_code txt, w1) \<Rightarrow>
             if status_code \<noteq> 200 then restore_then e (edge_failed_reply txt) w1
             else mark_provisioned e w1
         | (RequestException msg, w1) \<Rightarrow> restore_then e (edge_unreachable_reply msg) w1
         | (OtherException msg, w1) \<Rightarrow> (Inl (PyException msg), w1))"

text \<open>The body of the inner \<open>try\<close> (steps 2 to 8): a reply, or the exception that leaves it.\<close>

definition provision_steps ::
  "env \<Rightarrow> string \<Rightarrow> string \<Rightarrow> string \<Rightarrow> string option \<Rightarrow> world \<Rightarrow> (exn + reply) \<times> world" where
  "provision_steps e token ssid password device_name w =
     (case is_connected_to_wifi e 20 (switch_to_hotspot e w) of
        (connected, w1) \<Rightarrow>
          if \<not> connected then restore_then e connect_failed_reply w1
          else register_device e token ssid password device_name w1)"

text \<open>The inner \<open>try\<close> with its handler: restore, then reply 500. An exception of the
  restore in the handler leaves it.\<close>

definition provision_guarded ::
  "env \<Rightarrow> string \<Rightarrow> string \<Rightarrow> string \<Rightarrow> string option \<Rightarrow> world \<Rightarrow> (exn + reply) \<times> world" where
  "provision_guarded e token ssid password device_name w =
     (case provision_steps e token ssid password device_name w of
        (Inr r, w1) \<Rightarrow> (Inr r, w1)
      | (Inl ex, w1) \<Rightarrow> restore_then e (provisioning_failed_reply ex) w1)"

text \<open>Step 1 and the inner \<open>try\<close>: the configuration file is written before the
  \<open>try\<close>, so an exception of the write leaves without the handler of the inner
  \<open>try\<close>.\<close>

definition provision_attempt ::
  "env \<Rightarrow> string \<Rightarrow> string \<Rightarrow> string \<Rightarrow> string option \<Rightarrow> world \<Rightarrow> (exn + reply) \<times> world" where
  "provision_attempt e token ssid password device_name w =
     (case write_file e tmp_path (create_wpa_config ssid password) w of
        (Inl ex, w1) \<Rightarrow> (Inl ex, w1)
      | (Inr u, w1) \<Rightarrow> provision_guarded e token ssid password device_name w1)"

text \<open>The body of the outer \<open>try\<close>.\<close>

definition provision_body :: "env \<Rightarrow> request_body \<Rightarrow> world \<Rightarrow> (exn + reply) \<times> world" where
  "provision_body e body w =
     (case request_data body of
        Inl ex \<Rightarrow> (Inl ex, w)
      | Inr data \<Rightarrow>
          (let token = dict_get data ''token'';
               ssid = dict_get data ''ssid'';
               password = dict_get data ''password'';
               device_name = dict_get_default data ''device_name'' ''EVVOS_0001''
           in case (token, ssid, password) of
                (Some t, Some s, Some p) \<Rightarrow>
                  if \<not> (truthy token \<and> truthy ssid \<and> truthy password)
                  then (Inr missing_fields_reply, w)
                  else provision_attempt e t s p device_name w
              | _ \<Rightarrow> (Inr missing_fields_reply, w)))"

text \<open>The handler: the outer \<open>try\<close> answers every exception with 400.\<close>

definition provision :: "env \<Rightarrow> request_body \<Rightarrow> world \<Rightarrow> reply \<times> world" where
  "provision e body w =
     (case provision_body e body w of
        (Inr r, w1) \<Rightarrow> (r, w1)
      | (Inl ex, w1) \<Rightarrow> (invalid_request_reply ex, w1))"

subsection \<open>GET /provision-status and GET /health\<close>

definition provision_status :: "world \<Rightarrow> reply" where
  "provision_status w =
     (if files w PROVISIONED_FILE \<noteq> None
      then ([(''ok'', JBool True), (''provisioned'', JBool True)], 200)
      else ([(''ok'', JBool True), (''provisioned'', JBool False)], 200))"

definition health :: reply where
  "health = ([(''ok'', JBool True), (''status'', JStr ''provisioning server running'')], 200)"

subsection \<open>Notions used in the statements\<close>

text \<open>
  The poller starts in a world \<open>w\<close>. Its \<open>j\<close>-th probe (from 0) is the effect number
  \<open>clock w + 2 * j\<close>, since every probe before it was followed by one sleep.
\<close>

definition probe_at :: "env \<Rightarrow> world \<Rightarrow> nat \<Rightarrow> proc_outcome" where
  "probe_at e w j = sh_outcome e (clock w + 2 * j) probe_cmd"

definition positive_at :: "env \<Rightarrow> world \<Rightarrow> nat \<Rightarrow> bool" where
  "positive_at e w j = probe_positive (run_result False (probe_at e w j))"

text \<open>The log of \<open>k\<close> probes, each followed by its sleep of one second.\<close>

definition negative_rounds :: "env \<Rightarrow> world \<Rightarrow> nat \<Rightarrow> event list" where
  "negative_rounds e w k = concat (map (\<lambda>j. [Exec probe_cmd (probe_at e w j), Sleep 1]) [0..<k])"

text \<open>The number of probes in a log, and the seconds slept in it.\<close>

fun probes_in :: "event list \<Rightarrow> nat" where
  "probes_in [] = 0"
| "probes_in (Exec cmd out # evs) = (if cmd = probe_cmd then 1 else 0) + probes_in evs"
| "probes_in (ev # evs) = probes_in evs"

fun slept_in :: "event list \<Rightarrow> nat" where
  "slept_in [] = 0"
| "slept_in (Sleep secs # evs) = secs + slept_in evs"
| "slept_in (ev # evs) = slept_in evs"

text \<open>What an operation added to the log.\<close>

definition new_events :: "world \<Rightarrow> world \<Rightarrow> event list" where
  "new_events w w' = drop (length (trace w)) (trace w')"

text \<open>The commands in a log, in order.\<close>

fun issued :: "event list \<Rightarrow> string list" where
  "issued [] = []"
| "issued (Exec cmd out # evs) = cmd # issued evs"
| "issued (ev # evs) = issued evs"

text \<open>
  The fields of a request that passes the check of the handler: token, ssid and password
  are strings that are not empty; the device name has its default when it is absent.
\<close>

definition accepted :: "request_body \<Rightarrow> (string \<times> string \<times> string \<times> string option) option" where
  "accepted body =
     (case request_data body of
        Inl ex \<Rightarrow> None
      | Inr d \<Rightarrow>
          (case (dict_get d ''token'', dict_get d ''ssid'', dict_get d ''password'') of
             (Some t, Some s, Some p) \<Rightarrow>
               if t \<noteq> [] \<and> s \<noteq> [] \<and> p \<noteq> []
               then Some (t, s, p, dict_get_default d ''device_name'' ''EVVOS_0001'')
               else None
           | _ \<Rightarrow> None))"

text \<open>The world in which the poll of step 5 starts, and what the poll returns.\<close>

definition polling_start :: "env \<Rightarrow> string \<Rightarrow> string \<Rightarrow> world \<Rightarrow> world" where
  "polling_start e ssid password w =
     switch_to_hotspot e (snd (write_file e tmp_path (create_wpa_config ssid password) w))"

definition poll_outcome :: "env \<Rightarrow> string \<Rightarrow> string \<Rightarrow> world \<Rightarrow> bool \<times> world" where
  "poll_outcome e ssid password w = is_connected_to_wifi e 20 (polling_start e ssid password w)"

text \<open>What the registration endpoint answers when it is called right after the poll.\<close>

definition registration ::
  "env \<Rightarrow> string \<Rightarrow> string \<Rightarrow> string \<Rightarrow> string option \<Rightarrow> world \<Rightarrow> post_outcome" where
  "registration e token ssid password device_name w =
     post_outcome e (clock (snd (poll_outcome e ssid password w)))
       (registration_payload token ssid password device_name)"

text \<open>The world right after the registration call.\<close>

definition posted :: "env \<Rightarrow> string \<Rightarrow> string \<Rightarrow> string \<Rightarrow> string option \<Rightarrow> world \<Rightarrow> world" where
  "posted e token ssid password device_name w =
     snd (requests_post e (registration_payload token ssid password device_name)
            (snd (poll_outcome e ssid password w)))"

text \<open>What the body of the inner \<open>try\<close> returns when the handler gets to it from \<open>w\<close>.\<close>

definition steps_outcome ::
  "env \<Rightarrow> string \<Rightarrow> string \<Rightarrow> string \<Rightarrow> string option \<Rightarrow> world \<Rightarrow> (exn + reply) \<times> world" where
  "steps_outcome e token ssid password device_name w =
     provision_steps e token ssid password device_name
       (snd (write_file e tmp_path (create_wpa_config ssid password) w))"

text \<open>A restore that starts in \<open>w\<close> opens the marker after its two commands.\<close>

definition restore_can_mark :: "env \<Rightarrow> world \<Rightarrow> bool" where
  "restore_can_mark e w = (open_error e (clock w + 2) AP_RESTORED_FILE = None)"

text \<open>The two commands of a restore that starts in \<open>w\<close>, as the log has them.\<close>

definition restore_commands :: "env \<Rightarrow> world \<Rightarrow> event list" where
  "restore_commands e w =
     [Exec ''systemctl start hostapd'' (sh_outcome e (clock w) ''systemctl start hostapd''),
      Exec ''systemctl start dnsmasq'' (sh_outcome e (Suc (clock w)) ''systemctl start dnsmasq'')]"

text \<open>The three commands of step 8, as the log has them when the marker is written in \<open>w\<close>.\<close>

definition stop_commands :: "env \<Rightarrow> world \<Rightarrow> event list" where
  "stop_commands e w =
     [Exec ''systemctl stop hostapd'' (sh_outcome e (clock w + 1) ''systemctl stop hostapd''),
      Exec ''systemctl stop dnsmasq'' (sh_outcome e (clock w + 2) ''systemctl stop dnsmasq''),
      Exec ''systemctl stop provision-server''
        (sh_outcome e (clock w + 3) ''systemctl stop provision-server'')]"

text \<open>
  An attempt from \<open>w\<close> got as far as a successful registration: the request is
  accepted, the configuration file is written, the poll finds an address and the
  registration call returns the status 200.
\<close>

definition registered :: "env \<Rightarrow> request_body \<Rightarrow> world \<Rightarrow> bool" where
  "registered e body w =
     (case accepted body of
        None \<Rightarrow> False
      | Some (t, s, p, dn) \<Rightarrow>
          open_error e (clock w) tmp_path = None \<and> fst (poll_outcome e s p w) \<and>
          (case registration e t s p dn w of
             Response status_code txt \<Rightarrow> status_code = 200
           | RequestException msg \<Rightarrow> False
           | OtherException msg \<Rightarrow> False))"

text \<open>The provisioned marker can be opened at the time step 7 gets to it.\<close>

definition marker_opens :: "env \<Rightarrow> request_body \<Rightarrow> world \<Rightarrow> bool" where
  "marker_opens e body w =
     (case accepted body of
        None \<Rightarrow> False
      | Some (t, s, p, dn) \<Rightarrow>
          open_error e (clock (posted e t s p dn w)) PROVISIONED_FILE = None)"

text \<open>The three fixed parts of the configuration, around the two values.\<close>

definition wpa_head :: string where
  "wpa_head =
     ''ctrl_interface=DIR=/var/run/wpa_supplicant GROUP=netdev'' @ [nl] @
     ''update_config=1'' @ [nl] @ ''country=PH'' @ [nl] @ [nl] @
     ''network={'' @ [nl] @ [tab] @ ''ssid='' @ [dq]"

definition wpa_mid :: string where
  "wpa_mid = [dq] @ [nl] @ [tab] @ ''psk='' @ [dq]"

definition wpa_tail :: string where
  "wpa_tail = [dq] @ [nl] @ [tab] @ ''scan_ssid=1'' @ [nl] @ ''}'' @ [nl]"

subsection \<open>Concrete devices and requests\<close>

text \<open>
  A device whose interface shows an address from effect number \<open>up_from\<close> on, whose
  registration endpoint answers \<open>reg\<close>, and whose files open as \<open>oerr\<close> says.
\<close>

definition device :: "nat \<Rightarrow> post_outcome \<Rightarrow> (nat \<Rightarrow> string \<Rightarrow> string option) \<Rightarrow> env" where
  "device up_from reg oerr =
     \<lparr>sh_outcome = (\<lambda>t cmd. if cmd = probe_cmd \<and> up_from \<le> t
                              then Completed 0 ''inet 192.168.43.12''
                              else Completed 0 []),
      open_error = oerr,
      post_outcome = (\<lambda>t payload. reg),
      EDGE_FINISH_URL = ''https://edge.example/finish_provisioning'',
      SERVICE_ROLE_KEY = ''key''\<rparr>"

text \<open>Every file can be opened for writing.\<close>

definition writable :: "nat \<Rightarrow> string \<Rightarrow> string option" where
  "writable t path = None"

text \<open>A file that cannot be opened for writing, always or before a given time.\<close>

definition denied :: "string \<Rightarrow> nat \<Rightarrow> string \<Rightarrow> string option" where
  "denied path t q = (if q = path then Some ''Permission denied'' else None)"

definition busy_until :: "nat \<Rightarrow> string \<Rightarrow> nat \<Rightarrow> string \<Rightarrow> string option" where
  "busy_until limit path t q = (if q = path \<and> t < limit then Some ''Device or resource busy'' else None)"

text \<open>A device like \<open>e\<close> on which every command but the probe returns the code 1.\<close>

definition failing_join :: "env \<Rightarrow> env" where
  "failing_join e =
     e\<lparr>sh_outcome := (\<lambda>t cmd. if cmd = probe_cmd then sh_outcome e t cmd else Completed 1 [])\<rparr>"

text \<open>A device on which every shell command times out.\<close>

definition stuck :: "env \<Rightarrow> env" where
  "stuck e = e\<lparr>sh_outcome := (\<lambda>t cmd. TimeoutExpired)\<rparr>"

text \<open>A device that has done nothing yet and has none of the files, and the request of the
  scenarios: token \<open>abc12345\<close>, ssid \<open>HomeNet\<close>, password \<open>secret1\<close>, device name
  \<open>Dev1\<close>.\<close>

definition fresh :: world where
  "fresh = \<lparr>files = Map.empty, trace = []\<rparr>"

definition home_request :: request_body where
  "home_request =
     Dict [''token'' \<mapsto> Some ''abc12345'', ''ssid'' \<mapsto> Some ''HomeNet'',
           ''password'' \<mapsto> Some ''secret1'', ''device_name'' \<mapsto> Some ''Dev1'']"

section \<open>Properties\<close>

subsection \<open>Basic facts about the effects\<close>

lemma trace_emit [simp]: "trace (emit ev w) = trace w @ [ev]"
  by (simp add: emit_def)

lemma files_emit [simp]: "files (emit ev w) = files w"
  by (simp add: emit_def)

lemma clock_emit [simp]: "clock (emit ev w) = Suc (clock w)"
  by (simp add: clock_def)

lemma clock_files_update [simp]: "clock (w\<lparr>files := f\<rparr>) = clock w"
  by (simp add: clock_def)

lemma snd_run [simp]: "snd (run e cmd check w) = emit (Exec cmd (sh_outcome e (clock w) cmd)) w"
  by (simp add: run_def Let_def)

lemma fst_run [simp]: "fst (run e cmd check w) = run_result check (sh_outcome e (clock w) cmd)"
  by (simp add: run_def Let_def)

lemma trace_sleep [simp]: "trace (sleep n w) = trace w @ [Sleep n]"
  by (simp add: sleep_def)

lemma files_sleep [simp]: "files (sleep n w) = files w"
  by (simp add: sleep_def)

lemma clock_sleep [simp]: "clock (sleep n w) = Suc (clock w)"
  by (simp add: sleep_def)

lemma new_events_append [simp]: "trace w' = trace w @ evs \<Longrightarrow> new_events w w' = evs"
  by (simp add: new_events_def)

subsection \<open>The poller\<close>

lemma probe_at_shift [simp]: "probe_at e (sleep m (emit ev w)) j = probe_at e w (Suc j)"
  by (simp add: probe_at_def)

lemma positive_at_shift [simp]: "positive_at e (sleep m (emit ev w)) j = positive_at e w (Suc j)"
  by (simp add: positive_at_def)

lemma probe_at_two_more:
  "probe_at e (w\<lparr>trace := trace w @ [a, b]\<rparr>) j = probe_at e w (Suc j)"
  by (simp add: probe_at_def clock_def)

lemma negative_rounds_0 [simp]: "negative_rounds e w 0 = []"
  by (simp add: negative_rounds_def)

lemma negative_rounds_Suc:
  "negative_rounds e w (Suc k) = negative_rounds e w k @ [Exec probe_cmd (probe_at e w k), Sleep 1]"
  by (simp add: negative_rounds_def)

lemma negative_rounds_Suc_shift:
  "negative_rounds e w (Suc k) =
     [Exec probe_cmd (probe_at e w 0), Sleep 1] @
     negative_rounds e (sleep 1 (emit (Exec probe_cmd (probe_at e w 0)) w)) k"
proof -
  have "[0..<Suc k] = 0 # map Suc [0..<k]"
    by (simp add: upt_conv_Cons map_Suc_upt del: upt_Suc)
  then show ?thesis
    by (simp add: negative_rounds_def probe_at_def comp_def del: upt_Suc)
qed

lemma probes_in_append [simp]: "probes_in (xs @ ys) = probes_in xs + probes_in ys"
  by (induction xs rule: probes_in.induct) simp_all

lemma slept_in_append [simp]: "slept_in (xs @ ys) = slept_in xs + slept_in ys"
  by (induction xs rule: slept_in.induct) simp_all

lemma probes_in_negative_rounds [simp]: "probes_in (negative_rounds e w k) = k"
  by (induction k) (simp_all add: negative_rounds_Suc)

lemma slept_in_negative_rounds [simp]: "slept_in (negative_rounds e w k) = k"
  by (induction k) (simp_all add: negative_rounds_Suc)

lemma poll_step_negative:
  "\<not> positive_at e w 0 \<Longrightarrow>
   poll e (Suc n) w = poll e n (sleep 1 (emit (Exec probe_cmd (probe_at e w 0)) w))"
  by (simp add: run_def Let_def positive_at_def probe_at_def)

lemma poll_step_positive:
  "positive_at e w 0 \<Longrightarrow> poll e (Suc n) w = (True, emit (Exec probe_cmd (probe_at e w 0)) w)"
  by (simp add: run_def Let_def positive_at_def probe_at_def)

lemma poll_exhausted:
  "\<forall>j<n. \<not> positive_at e w j \<Longrightarrow>
   poll e n w = (False, w\<lparr>trace := trace w @ negative_rounds e w n\<rparr>)"
proof (induction n arbitrary: w)
  case 0
  show ?case by simp
next
  case (Suc n)
  let ?w2 = "sleep 1 (emit (Exec probe_cmd (probe_at e w 0)) w)"
  from Suc.prems have n0: "\<not> positive_at e w 0" by simp
  from Suc.prems have "\<forall>j<n. \<not> positive_at e ?w2 j" by simp
  from Suc.IH[OF this] show ?case
    by (simp only: poll_step_negative[OF n0] negative_rounds_Suc_shift)
       (simp add: sleep_def emit_def)
qed

lemma poll_first_positive:
  "k < n \<Longrightarrow> positive_at e w k \<Longrightarrow> \<forall>j<k. \<not> positive_at e w j \<Longrightarrow>
   poll e n w =
     (True, w\<lparr>trace := trace w @ negative_rounds e w k @ [Exec probe_cmd (probe_at e w k)]\<rparr>)"
proof (induction k arbitrary: n w)
  case 0
  then obtain n' where n: "n = Suc n'" by (cases n) auto
  from 0 show ?case
    by (simp only: n poll_step_positive) (simp add: emit_def)
next
  case (Suc k)
  then obtain n' where n: "n = Suc n'" by (cases n) auto
  let ?w2 = "sleep 1 (emit (Exec probe_cmd (probe_at e w 0)) w)"
  from Suc.prems have n0: "\<not> positive_at e w 0" by simp
  from Suc.prems n have a: "k < n'" "positive_at e ?w2 k" "\<forall>j<k. \<not> positive_at e ?w2 j"
    by simp_all
  from Suc.IH[OF a] show ?case
    by (simp only: n poll_step_negative[OF n0] negative_rounds_Suc_shift)
       (simp add: sleep_def emit_def probe_at_two_more)
qed

text \<open>Every run of the poller is one of the two: there is a first positive probe among
  the first \<open>n\<close>, or there is none.\<close>

lemma poll_cases:
  obtains (exhausted) "\<forall>j<n. \<not> positive_at e w j"
    "poll e n w = (False, w\<lparr>trace := trace w @ negative_rounds e w n\<rparr>)"
  | (found) k where "k < n" "positive_at e w k" "\<forall>j<k. \<not> positive_at e w j"
    "poll e n w =
       (True, w\<lparr>trace := trace w @ negative_rounds e w k @ [Exec probe_cmd (probe_at e w k)]\<rparr>)"
proof (cases "\<forall>j<n. \<not> positive_at e w j")
  case True
  with poll_exhausted[OF True] exhausted show ?thesis by blast
next
  case False
  then have ex: "\<exists>j. j < n \<and> positive_at e w j" by blast
  define k where "k = (LEAST j. j < n \<and> positive_at e w j)"
  from LeastI_ex[OF ex] have k: "k < n" "positive_at e w k"
    by (simp_all add: k_def)
  have first: "\<forall>j<k. \<not> positive_at e w j"
  proof (intro allI impI)
    fix j assume jk: "j < k"
    show "\<not> positive_at e w j"
    proof
      assume "positive_at e w j"
      with jk k(1) have "j < n \<and> positive_at e w j" by simp
      then have "k \<le> j" unfolding k_def by (rule Least_le)
      with jk show False by simp
    qed
  qed
  from found[OF k first poll_first_positive[OF k first]] show ?thesis .
qed

lemma files_poll [simp]: "files (snd (poll e n w)) = files w"
  by (cases rule: poll_cases[of n e w]) simp_all

lemma clock_poll_ge: "clock w \<le> clock (snd (poll e n w))"
  by (cases rule: poll_cases[of n e w]) (simp_all add: clock_def)

text \<open>
  Claim C9. The poller runs the probe at most \<open>max_retries\<close> times and sleeps one second
  after each negative probe. When the probe number \<open>k\<close> is the first positive one among
  the first \<open>max_retries\<close>, the poller returns \<open>True\<close> right after it: its log is \<open>k\<close>
  negative rounds and that probe, with nothing after. When all \<open>max_retries\<close> probes are
  negative it returns \<open>False\<close> after exactly \<open>max_retries\<close> rounds, and only then. In
  every run the seconds slept are at most \<open>max_retries\<close>, 20 as the handler calls it, and
  no file changes.
\<close>

theorem is_connected_to_wifi_bounded_poll:
  "(\<forall>k<nat m. positive_at e w k \<and> (\<forall>j<k. \<not> positive_at e w j) \<longrightarrow>
      is_connected_to_wifi e m w =
        (True, w\<lparr>trace := trace w @ negative_rounds e w k @ [Exec probe_cmd (probe_at e w k)]\<rparr>))
   \<and> ((\<forall>j<nat m. \<not> positive_at e w j) \<longrightarrow>
      is_connected_to_wifi e m w = (False, w\<lparr>trace := trace w @ negative_rounds e w (nat m)\<rparr>))
   \<and> (fst (is_connected_to_wifi e m w) \<longleftrightarrow> (\<exists>j<nat m. positive_at e w j))
   \<and> probes_in (new_events w (snd (is_connected_to_wifi e m w))) \<le> nat m
   \<and> slept_in (new_events w (snd (is_connected_to_wifi e m w))) \<le> nat m
   \<and> slept_in (negative_rounds e w k) = k \<and> probes_in (negative_rounds e w k) = k
   \<and> files (snd (is_connected_to_wifi e m w)) = files w"
proof -
  have a: "\<forall>k<nat m. positive_at e w k \<and> (\<forall>j<k. \<not> positive_at e w j) \<longrightarrow>
      is_connected_to_wifi e m w =
        (True, w\<lparr>trace := trace w @ negative_rounds e w k @ [Exec probe_cmd (probe_at e w k)]\<rparr>)"
    by (simp add: is_connected_to_wifi_def poll_first_positive)
  have b: "(\<forall>j<nat m. \<not> positive_at e w j) \<longrightarrow>
      is_connected_to_wifi e m w = (False, w\<lparr>trace := trace w @ negative_rounds e w (nat m)\<rparr>)"
    by (simp add: is_connected_to_wifi_def poll_exhausted)
  have c: "fst (is_connected_to_wifi e m w) \<longleftrightarrow> (\<exists>j<nat m. positive_at e w j)"
    unfolding is_connected_to_wifi_def
    by (cases rule: poll_cases[of "nat m" e w]) auto
  have d: "probes_in (new_events w (snd (is_connected_to_wifi e m w))) \<le> nat m"
    unfolding is_connected_to_wifi_def
    by (cases rule: poll_cases[of "nat m" e w]) simp_all
  have f: "slept_in (new_events w (snd (is_connected_to_wifi e m w))) \<le> nat m"
    unfolding is_connected_to_wifi_def
    by (cases rule: poll_cases[of "nat m" e w]) simp_all
  have g: "files (snd (is_connected_to_wifi e m w)) = files w"
    by (simp add: is_connected_to_wifi_def)
  from a b c d f g show ?thesis by simp
qed

lemma str_in_inet: "str_in ''inet '' ''inet 192.168.43.12''"
  by simp

lemma positive_at_device:
  "positive_at (device up reg oerr) w j \<longleftrightarrow> up \<le> clock w + 2 * j"
  by (simp add: positive_at_def probe_at_def device_def probe_positive_def run_result_def)

lemma clock_fresh [simp]: "clock fresh = 0"
  by (simp add: clock_def fresh_def)

theorem is_connected_to_wifi_bounded_poll_witness:
  "((2::nat) < nat 20 \<and> positive_at (device 4 (Response 200 ''ok'') writable) fresh 2
     \<and> \<not> positive_at (device 4 (Response 200 ''ok'') writable) fresh 0
     \<and> \<not> positive_at (device 4 (Response 200 ''ok'') writable) fresh 1)
   \<and> is_connected_to_wifi (device 4 (Response 200 ''ok'') writable) 20 fresh =
       (True, fresh\<lparr>trace :=
          [Exec probe_cmd (Completed 0 []), Sleep 1,
           Exec probe_cmd (Completed 0 []), Sleep 1,
           Exec probe_cmd (Completed 0 ''inet 192.168.43.12'')]\<rparr>)
   \<and> is_connected_to_wifi (device 1000 (Response 200 ''ok'') writable) 20 fresh =
       (False, fresh\<lparr>trace := negative_rounds (device 1000 (Response 200 ''ok'') writable) fresh 20\<rparr>)
   \<and> slept_in (negative_rounds (device 1000 (Response 200 ''ok'') writable) fresh 20) = 20"
proof -
  let ?d = "device 4 (Response 200 ''ok'') writable"
  let ?n = "device 1000 (Response 200 ''ok'') writable"
  have h: "positive_at ?d fresh 2" "\<not> positive_at ?d fresh 0" "\<not> positive_at ?d fresh 1"
    by (simp_all add: positive_at_device)
  then have first: "\<forall>j<2. \<not> positive_at ?d fresh j"
    by (simp add: less_Suc_eq numeral_2_eq_2)
  have never: "\<forall>j<nat 20. \<not> positive_at ?n fresh j"
    by (simp add: positive_at_device)
  have r2: "negative_rounds ?d fresh 2 =
      [Exec probe_cmd (Completed 0 []), Sleep 1, Exec probe_cmd (Completed 0 []), Sleep 1]"
    by (simp add: negative_rounds_Suc numeral_2_eq_2 probe_at_def device_def)
  have p2: "probe_at ?d fresh 2 = Completed 0 ''inet 192.168.43.12''"
    by (simp add: probe_at_def device_def)
  from is_connected_to_wifi_bounded_poll[of 20 ?d fresh 20] h(1) first
  have A: "is_connected_to_wifi ?d 20 fresh =
      (True, fresh\<lparr>trace := trace fresh @ negative_rounds ?d fresh 2 @ [Exec probe_cmd (probe_at ?d fresh 2)]\<rparr>)"
    by simp
  from is_connected_to_wifi_bounded_poll[of 20 ?n fresh 20] never
  have B: "is_connected_to_wifi ?n 20 fresh = (False, fresh\<lparr>trace := trace fresh @ negative_rounds ?n fresh (nat 20)\<rparr>)"
    and C: "slept_in (negative_rounds ?n fresh 20) = 20"
    by simp_all
  have tf: "trace fresh = []" by (simp add: fresh_def)
  from A B C h show ?thesis
    by (simp add: r2 p2 tf)
qed

subsection \<open>Requests that are rejected\<close>

lemma provision_bad_body:
  "request_data body = Inl ex \<Longrightarrow> provision e body w = (invalid_request_reply ex, w)"
  by (simp add: provision_def provision_body_def)

lemma provision_not_accepted:
  "request_data body = Inr d \<Longrightarrow> accepted body = None \<Longrightarrow>
   provision e body w = (missing_fields_reply, w)"
  by (auto simp add: provision_def provision_body_def accepted_def truthy_def Let_def
      split: option.splits if_splits)

lemma provision_accepted:
  "accepted body = Some (t, s, p, dn) \<Longrightarrow>
   provision e body w =
     (case provision_attempt e t s p dn w of
        (Inr r, w1) \<Rightarrow> (r, w1)
      | (Inl ex, w1) \<Rightarrow> (invalid_request_reply ex, w1))"
  by (auto simp add: provision_def provision_body_def accepted_def truthy_def Let_def
      split: option.splits if_splits sum.splits)

text \<open>
  Claim C5. When one of token, ssid and password is absent, null or the empty string, the
  handler replies 400 with the error \<open>Missing fields (token, ssid, password)\<close> and the
  world is the one it started in: no file is written, no command is run, nothing is
  posted. A body that is not a JSON object is answered 400 as well, with the world
  unchanged.
\<close>

theorem provision_rejects_missing_fields:
  "(request_data body = Inr d \<longrightarrow> k \<in> {''token'', ''ssid'', ''password''} \<longrightarrow>
      (dict_get d k = None \<or> dict_get d k = Some []) \<longrightarrow>
        provision e body w = (missing_fields_reply, w))
   \<and> (request_data body = Inl ex \<longrightarrow> provision e body w = (invalid_request_reply ex, w))
   \<and> snd missing_fields_reply = 400 \<and> snd (invalid_request_reply ex) = 400
   \<and> fst missing_fields_reply =
        [(''ok'', JBool False), (''error'', JStr ''Missing fields (token, ssid, password)'')]"
proof -
  have a: "provision e body w = (missing_fields_reply, w)"
    if "request_data body = Inr d" "k \<in> {''token'', ''ssid'', ''password''}"
      "dict_get d k = None \<or> dict_get d k = Some []"
  proof -
    from that have "accepted body = None"
      by (auto simp add: accepted_def split: option.splits)
    with that(1) show ?thesis by (rule provision_not_accepted)
  qed
  then show ?thesis
    by (simp add: provision_bad_body missing_fields_reply_def invalid_request_reply_def)
qed

lemma accepted_home [simp]:
  "accepted home_request = Some (''abc12345'', ''HomeNet'', ''secret1'', Some ''Dev1'')"
  by (simp add: accepted_def home_request_def request_data_def dict_get_def dict_get_default_def)

theorem provision_rejects_missing_fields_witness:
  "(request_data (Dict [''token'' \<mapsto> Some ''abc12345'', ''ssid'' \<mapsto> Some []]) =
      Inr [''token'' \<mapsto> Some ''abc12345'', ''ssid'' \<mapsto> Some []]
    \<and> dict_get [''token'' \<mapsto> Some ''abc12345'', ''ssid'' \<mapsto> Some []] ''ssid'' = Some []
    \<and> dict_get [''token'' \<mapsto> Some ''abc12345'', ''ssid'' \<mapsto> Some []] ''password'' = None)
   \<and> provision (device 0 (Response 200 ''ok'') writable)
        (Dict [''token'' \<mapsto> Some ''abc12345'', ''ssid'' \<mapsto> Some []]) fresh =
        (missing_fields_reply, fresh)
   \<and> request_data (BadJson ''not json'') = Inl (PyException ''not json'')
   \<and> provision (device 0 (Response 200 ''ok'') writable) (BadJson ''not json'') fresh =
        (invalid_request_reply (PyException ''not json''), fresh)"
proof -
  let ?d = "[''token'' \<mapsto> Some ''abc12345'', ''ssid'' \<mapsto> Some []] :: string \<rightharpoonup> string option"
  have h: "request_data (Dict ?d) = Inr ?d" "dict_get ?d ''ssid'' = Some []"
    "dict_get ?d ''password'' = None"
    "request_data (BadJson ''not json'') = Inl (PyException ''not json'')"
    by (simp_all add: request_data_def dict_get_def)
  from provision_rejects_missing_fields[of "Dict ?d" ?d "''ssid''"
      "device 0 (Response 200 ''ok'') writable" fresh "PyException ''x''"] h
  have a: "provision (device 0 (Response 200 ''ok'') writable) (Dict ?d) fresh =
        (missing_fields_reply, fresh)"
    by simp
  from provision_rejects_missing_fields[of "BadJson ''not json''" ?d "''ssid''"
      "device 0 (Response 200 ''ok'') writable" fresh "PyException ''not json''"] h
  have b: "provision (device 0 (Response 200 ''ok'') writable) (BadJson ''not json'') fresh =
        (invalid_request_reply (PyException ''not json''), fresh)"
    by simp
  from a b h show ?thesis by simp
qed

subsection \<open>The restore after a failed connection\<close>

lemma restore_ap_mode_ok:
  "restore_can_mark e w \<Longrightarrow>
   restore_ap_mode e w =
     (Inr (), w\<lparr>files := (files w)(AP_RESTORED_FILE \<mapsto> []),
                trace := trace w @ restore_commands e w @ [Wrote AP_RESTORED_FILE []]\<rparr>)"
  by (simp add: restore_ap_mode_def restore_can_mark_def restore_commands_def write_file_def
      run_def emit_def clock_def Let_def)

lemma restore_ap_mode_fails:
  "open_error e (clock w + 2) AP_RESTORED_FILE = Some msg \<Longrightarrow>
   restore_ap_mode e w =
     (Inl (PyException msg),
      w\<lparr>trace := trace w @ restore_commands e w @ [OpenFailed AP_RESTORED_FILE]\<rparr>)"
  by (simp add: restore_ap_mode_def restore_commands_def write_file_def run_def emit_def
      clock_def Let_def)

lemma restore_then_ok:
  "restore_can_mark e w \<Longrightarrow>
   restore_then e r w =
     (Inr r, w\<lparr>files := (files w)(AP_RESTORED_FILE \<mapsto> []),
               trace := trace w @ restore_commands e w @ [Wrote AP_RESTORED_FILE []]\<rparr>)"
  by (simp add: restore_then_def restore_ap_mode_ok)

lemma restore_then_fails:
  "open_error e (clock w + 2) AP_RESTORED_FILE = Some msg \<Longrightarrow>
   restore_then e r w =
     (Inl (PyException msg),
      w\<lparr>trace := trace w @ restore_commands e w @ [OpenFailed AP_RESTORED_FILE]\<rparr>)"
  by (simp add: restore_then_def restore_ap_mode_fails)

lemma markers_distinct [simp]:
  "AP_RESTORED_FILE \<noteq> PROVISIONED_FILE" "PROVISIONED_FILE \<noteq> AP_RESTORED_FILE"
  "tmp_path \<noteq> PROVISIONED_FILE" "PROVISIONED_FILE \<noteq> tmp_path"
  "tmp_path \<noteq> AP_RESTORED_FILE" "AP_RESTORED_FILE \<noteq> tmp_path"
  by (simp_all add: AP_RESTORED_FILE_def PROVISIONED_FILE_def tmp_path_def)

lemma files_switch_to_hotspot [simp]: "files (switch_to_hotspot e w) = files w"
  by (simp add: switch_to_hotspot_def Let_def)

lemma files_is_connected [simp]: "files (snd (is_connected_to_wifi e m w)) = files w"
  by (simp add: is_connected_to_wifi_def)

lemma files_poll_outcome:
  "open_error e (clock w) tmp_path = None \<Longrightarrow>
   files (snd (poll_outcome e s p w)) = (files w)(tmp_path \<mapsto> create_wpa_config s p)"
  by (simp add: poll_outcome_def polling_start_def write_file_def)

lemma provision_steps_poll:
  "provision_steps e t s p dn (snd (write_file e tmp_path (create_wpa_config s p) w)) =
     (if \<not> fst (poll_outcome e s p w)
      then restore_then e connect_failed_reply (snd (poll_outcome e s p w))
      else register_device e t s p dn (snd (poll_outcome e s p w)))"
  by (simp add: provision_steps_def poll_outcome_def polling_start_def split: prod.splits)

lemma provision_attempt_config_ok:
  "open_error e (clock w) tmp_path = None \<Longrightarrow>
   provision_attempt e t s p dn w =
     provision_guarded e t s p dn (snd (write_file e tmp_path (create_wpa_config s p) w))"
  by (simp add: provision_attempt_def write_file_def)


lemma open_error_device [simp]: "open_error (device up reg oerr) = oerr"
  by (simp add: device_def)

lemma post_outcome_device [simp]: "post_outcome (device up reg oerr) t pl = reg"
  by (simp add: device_def)

lemma writable_simp [simp]: "writable t q = None"
  by (simp add: writable_def)

lemma restore_can_mark_writable [simp]: "restore_can_mark (device up reg writable) w"
  by (simp add: restore_can_mark_def)

lemma clock_trace_append [simp]: "clock (w\<lparr>trace := trace w @ evs\<rparr>) = clock w + length evs"
  by (simp add: clock_def)

lemma length_negative_rounds [simp]: "length (negative_rounds e w k) = 2 * k"
  by (induction k) (simp_all add: negative_rounds_Suc)

lemma clock_switch_to_hotspot [simp]: "clock (switch_to_hotspot e w) = clock w + 6"
  by (simp add: switch_to_hotspot_def Let_def)

lemma clock_write_file [simp]: "clock (snd (write_file e path c w)) = Suc (clock w)"
  by (simp add: write_file_def split: option.splits)

lemma clock_polling_start [simp]: "clock (polling_start e s p w) = clock w + 7"
  by (simp add: polling_start_def)



lemma restore_then_eq:
  "restore_then e r w =
     (case open_error e (clock w + 2) AP_RESTORED_FILE of
        None \<Rightarrow>
          (Inr r, w\<lparr>files := (files w)(AP_RESTORED_FILE \<mapsto> []),
                    trace := trace w @ restore_commands e w @ [Wrote AP_RESTORED_FILE []]\<rparr>)
      | Some msg \<Rightarrow>
          (Inl (PyException msg),
           w\<lparr>trace := trace w @ restore_commands e w @ [OpenFailed AP_RESTORED_FILE]\<rparr>))"
  by (cases "open_error e (clock w + 2) AP_RESTORED_FILE")
     (simp_all add: restore_then_ok restore_then_fails restore_can_mark_def)

lemma length_restore_commands [simp]: "length (restore_commands e w) = 2"
  by (simp add: restore_commands_def)

lemma provision_unfolded:
  assumes "accepted body = Some (t, s, p, dn)" and "open_error e (clock w) tmp_path = None"
  shows "provision e body w =
     (case (if \<not> fst (poll_outcome e s p w)
            then restore_then e connect_failed_reply (snd (poll_outcome e s p w))
            else register_device e t s p dn (snd (poll_outcome e s p w))) of
        (Inr r, w2) \<Rightarrow> (r, w2)
      | (Inl ex, w2) \<Rightarrow>
          (case restore_then e (provisioning_failed_reply ex) w2 of
             (Inr r, w3) \<Rightarrow> (r, w3)
           | (Inl ex', w3) \<Rightarrow> (invalid_request_reply ex', w3)))"
  using assms
  by (simp add: provision_accepted provision_attempt_config_ok provision_guarded_def
      provision_steps_poll split: prod.splits sum.splits)

lemma denied_simps [simp]:
  "denied path t path = Some ''Permission denied''"
  "q \<noteq> path \<Longrightarrow> denied path t q = None"
  by (simp_all add: denied_def)



subsection \<open>A failed registration\<close>

lemma snd_requests_post:
  "snd (requests_post e pl w) =
     emit (HttpPost (EDGE_FINISH_URL e) pl
             [(''Content-Type'', ''application/json''),
              (''Authorization'', ''Bearer '' @ SERVICE_ROLE_KEY e)] 15
             (post_outcome e (clock w) pl)) w"
  by (simp add: requests_post_def Let_def)

lemma fst_requests_post [simp]: "fst (requests_post e pl w) = post_outcome e (clock w) pl"
  by (simp add: requests_post_def Let_def)

lemma clock_requests_post [simp]: "clock (snd (requests_post e pl w)) = Suc (clock w)"
  by (simp add: snd_requests_post)

lemma files_requests_post [simp]: "files (snd (requests_post e pl w)) = files w"
  by (simp add: snd_requests_post)

lemma trace_requests_post:
  "trace (snd (requests_post e pl w)) =
     trace w @ [HttpPost (EDGE_FINISH_URL e) pl
             [(''Content-Type'', ''application/json''),
              (''Authorization'', ''Bearer '' @ SERVICE_ROLE_KEY e)] 15
             (post_outcome e (clock w) pl)]"
  by (simp add: snd_requests_post)

lemma clock_posted [simp]:
  "clock (posted e t s p dn w) = Suc (clock (snd (poll_outcome e s p w)))"
  by (simp add: posted_def)

lemma files_posted [simp]:
  "files (posted e t s p dn w) = files (snd (poll_outcome e s p w))"
  by (simp add: posted_def)

lemma mark_provisioned_eq:
  "mark_provisioned e w =
     (case open_error e (clock w) PROVISIONED_FILE of
        None \<Rightarrow>
          (Inr success_reply,
           w\<lparr>files := (files w)(PROVISIONED_FILE \<mapsto> ''1''),
             trace := trace w @ Wrote PROVISIONED_FILE ''1'' # stop_commands e w\<rparr>)
      | Some msg \<Rightarrow>
          (Inl (PyException msg), w\<lparr>trace := trace w @ [OpenFailed PROVISIONED_FILE]\<rparr>))"
  by (cases "open_error e (clock w) PROVISIONED_FILE")
     (simp_all add: mark_provisioned_def write_file_def stop_commands_def run_def emit_def
       clock_def Let_def numeral_3_eq_3)

lemma register_device_eq:
  "register_device e t s p dn (snd (poll_outcome e s p w)) =
     (case registration e t s p dn w of
        Response status_code txt \<Rightarrow>
          if status_code \<noteq> 200
          then restore_then e (edge_failed_reply txt) (posted e t s p dn w)
          else mark_provisioned e (posted e t s p dn w)
      | RequestException msg \<Rightarrow>
          restore_then e (edge_unreachable_reply msg) (posted e t s p dn w)
      | OtherException msg \<Rightarrow> (Inl (PyException msg), posted e t s p dn w))"
proof -
  let ?w1 = "snd (poll_outcome e s p w)"
  let ?pl = "registration_payload t s p dn"
  have "requests_post e ?pl ?w1 = (registration e t s p dn w, posted e t s p dn w)"
    by (simp add: requests_post_def registration_def posted_def Let_def)
  then show ?thesis
    by (simp add: register_device_def Let_def)
qed

lemma trace_posted:
  "trace (posted e t s p dn w) =
     trace (snd (poll_outcome e s p w)) @
       [HttpPost (EDGE_FINISH_URL e) (registration_payload t s p dn)
          [(''Content-Type'', ''application/json''),
           (''Authorization'', ''Bearer '' @ SERVICE_ROLE_KEY e)] 15
          (registration e t s p dn w)]"
  by (simp add: posted_def trace_requests_post registration_def)


lemma registration_device [simp]: "registration (device up reg oerr) t s p dn w = reg"
  by (simp add: registration_def)




subsection \<open>The successful path\<close>

lemma fst_poll_iff: "fst (poll e n w) \<longleftrightarrow> (\<exists>j<n. positive_at e w j)"
  by (cases rule: poll_cases[of n e w]) auto

lemma fst_poll_outcome_device:
  "fst (poll_outcome (device up reg oerr) s p w) \<longleftrightarrow> up \<le> clock w + 45"
proof -
  have "(\<exists>j<20. up \<le> clock w + 7 + 2 * j) \<longleftrightarrow> up \<le> clock w + 45"
  proof
    assume "\<exists>j<20. up \<le> clock w + 7 + 2 * j"
    then show "up \<le> clock w + 45" by auto
  next
    assume "up \<le> clock w + 45"
    then have "(19::nat) < 20 \<and> up \<le> clock w + 7 + 2 * 19" by simp
    then show "\<exists>j<20. up \<le> clock w + 7 + 2 * j" by blast
  qed
  then show ?thesis
    by (simp add: poll_outcome_def is_connected_to_wifi_def fst_poll_iff positive_at_device)
qed

lemma new_events_update [simp]:
  "new_events w (w'\<lparr>trace := trace w @ evs\<rparr>) = evs"
  by (simp add: new_events_def)

lemma issued_stop_commands [simp]:
  "issued (stop_commands e w) =
     [''systemctl stop hostapd'', ''systemctl stop dnsmasq'', ''systemctl stop provision-server'']"
  by (simp add: stop_commands_def)

lemma issued_restore_commands [simp]:
  "issued (restore_commands e w) = [''systemctl start hostapd'', ''systemctl start dnsmasq'']"
  by (simp add: restore_commands_def)

text \<open>
  Claim C10. On the path that ends in the reply 200 the handler writes the provisioned
  marker and then runs three commands before it replies: \<open>systemctl stop hostapd\<close>,
  \<open>systemctl stop dnsmasq\<close> and \<open>systemctl stop provision-server\<close>, which stops the
  service that is serving the request. What the commands return does not matter to the
  reply.
\<close>

theorem provision_success_stops_own_service:
  assumes "accepted body = Some (t, s, p, dn)"
    and "open_error e (clock w) tmp_path = None"
    and "fst (poll_outcome e s p w)"
    and "registration e t s p dn w = Response 200 txt"
    and "open_error e (clock (posted e t s p dn w)) PROVISIONED_FILE = None"
  shows "fst (provision e body w) = success_reply
    \<and> success_reply =
        ([(''ok'', JBool True), (''message'', JStr ''Device provisioned successfully'')], 200)
    \<and> new_events (posted e t s p dn w) (snd (provision e body w)) =
        Wrote PROVISIONED_FILE ''1'' # stop_commands e (posted e t s p dn w)
    \<and> issued (new_events (posted e t s p dn w) (snd (provision e body w))) =
        [''systemctl stop hostapd'', ''systemctl stop dnsmasq'',
         ''systemctl stop provision-server'']
    \<and> files (snd (provision e body w)) PROVISIONED_FILE = Some ''1''"
proof -
  let ?w2 = "posted e t s p dn w"
  have "provision e body w =
      (success_reply,
       ?w2\<lparr>files := (files ?w2)(PROVISIONED_FILE \<mapsto> ''1''),
           trace := trace ?w2 @ Wrote PROVISIONED_FILE ''1'' # stop_commands e ?w2\<rparr>)"
    using assms
    by (simp add: provision_unfolded register_device_eq mark_provisioned_eq)
  then show ?thesis
    by (simp add: success_reply_def)
qed

theorem provision_success_stops_own_service_witness:
  "(accepted home_request = Some (''abc12345'', ''HomeNet'', ''secret1'', Some ''Dev1'')
    \<and> open_error (device 11 (Response 200 ''ok'') writable) (clock fresh) tmp_path = None
    \<and> fst (poll_outcome (device 11 (Response 200 ''ok'') writable) ''HomeNet'' ''secret1'' fresh)
    \<and> registration (device 11 (Response 200 ''ok'') writable)
         ''abc12345'' ''HomeNet'' ''secret1'' (Some ''Dev1'') fresh = Response 200 ''ok''
    \<and> open_error (device 11 (Response 200 ''ok'') writable)
         (clock (posted (device 11 (Response 200 ''ok'') writable)
            ''abc12345'' ''HomeNet'' ''secret1'' (Some ''Dev1'') fresh)) PROVISIONED_FILE = None)
   \<and> fst (provision (device 11 (Response 200 ''ok'') writable) home_request fresh) =
        ([(''ok'', JBool True), (''message'', JStr ''Device provisioned successfully'')], 200)
   \<and> issued (new_events
        (posted (device 11 (Response 200 ''ok'') writable)
           ''abc12345'' ''HomeNet'' ''secret1'' (Some ''Dev1'') fresh)
        (snd (provision (device 11 (Response 200 ''ok'') writable) home_request fresh))) =
        [''systemctl stop hostapd'', ''systemctl stop dnsmasq'',
         ''systemctl stop provision-server'']
   \<and> files (snd (provision (device 11 (Response 200 ''ok'') writable) home_request fresh))
        PROVISIONED_FILE = Some ''1''"
proof -
  let ?d = "device 11 (Response 200 ''ok'') writable"
  have h: "accepted home_request = Some (''abc12345'', ''HomeNet'', ''secret1'', Some ''Dev1'')"
    "open_error ?d (clock fresh) tmp_path = None"
    "fst (poll_outcome ?d ''HomeNet'' ''secret1'' fresh)"
    "registration ?d ''abc12345'' ''HomeNet'' ''secret1'' (Some ''Dev1'') fresh = Response 200 ''ok''"
    "open_error ?d (clock (posted ?d ''abc12345'' ''HomeNet'' ''secret1'' (Some ''Dev1'') fresh))
       PROVISIONED_FILE = None"
    by (simp_all add: fst_poll_outcome_device)
  from provision_success_stops_own_service[OF h] h show ?thesis
    by (simp add: success_reply_def)
qed

subsection \<open>The restore on its own\<close>

text \<open>
  Claim C7, amended. Whatever the two start commands do (complete with any return code,
  time out, fail to start), \<open>restore_ap_mode\<close> goes on to the marker, and when the marker
  file can be opened it returns normally with the marker created. \<open>run\<close> itself returns
  \<open>None\<close> on a timeout and on a failure to start, and raises nothing.
\<close>

theorem restore_ap_mode_swallows_command_failures:
  "(restore_can_mark e w \<longrightarrow>
      restore_ap_mode e w =
        (Inr (), w\<lparr>files := (files w)(AP_RESTORED_FILE \<mapsto> []),
                   trace := trace w @ restore_commands e w @ [Wrote AP_RESTORED_FILE []]\<rparr>))
   \<and> issued (restore_commands e w) = [''systemctl start hostapd'', ''systemctl start dnsmasq'']
   \<and> (sh_outcome e (clock w) cmd = TimeoutExpired \<or> sh_outcome e (clock w) cmd = SpawnFailed
        \<longrightarrow> run e cmd check w = (None, emit (Exec cmd (sh_outcome e (clock w) cmd)) w))"
  by (auto simp add: restore_ap_mode_ok run_def run_result_def Let_def)

lemma stuck_simps [simp]:
  "sh_outcome (stuck e) t cmd = TimeoutExpired" "open_error (stuck e) = open_error e"
  by (simp_all add: stuck_def)

theorem restore_ap_mode_swallows_command_failures_witness:
  "restore_can_mark (stuck (device 0 (Response 200 ''ok'') writable)) fresh
   \<and> sh_outcome (stuck (device 0 (Response 200 ''ok'') writable)) (clock fresh)
        ''systemctl start hostapd'' = TimeoutExpired
   \<and> restore_ap_mode (stuck (device 0 (Response 200 ''ok'') writable)) fresh =
       (Inr (), \<lparr>files = [AP_RESTORED_FILE \<mapsto> []],
                 trace = [Exec ''systemctl start hostapd'' TimeoutExpired,
                          Exec ''systemctl start dnsmasq'' TimeoutExpired,
                          Wrote AP_RESTORED_FILE []]\<rparr>)
   \<and> run (stuck (device 0 (Response 200 ''ok'') writable)) ''systemctl start hostapd'' False fresh =
       (None, \<lparr>files = Map.empty, trace = [Exec ''systemctl start hostapd'' TimeoutExpired]\<rparr>)"
proof -
  let ?d = "stuck (device 0 (Response 200 ''ok'') writable)"
  have h: "restore_can_mark ?d fresh"
    "sh_outcome ?d (clock fresh) ''systemctl start hostapd'' = TimeoutExpired"
    by (simp_all add: restore_can_mark_def)
  from restore_ap_mode_swallows_command_failures[of ?d fresh "''systemctl start hostapd''" False] h
  show ?thesis
    by (simp add: restore_commands_def fresh_def emit_def)
qed

text \<open>
  The claim as it stands fails on the marker: when the file cannot be opened the
  \<open>OSError\<close> leaves \<open>restore_ap_mode\<close>, and the reply of the handler shows it. With an
  endpoint that cannot be reached the reply is 500 when the marker is writable and the
  400 of the outer handler when it is not.
\<close>

theorem restore_ap_mode_swallows_command_failures_counterexample:
  "fst (restore_ap_mode (device 0 (RequestException ''timed out'') (denied AP_RESTORED_FILE)) fresh) =
      Inl (PyException ''Permission denied'')
   \<and> fst (provision (device 0 (RequestException ''timed out'') (denied AP_RESTORED_FILE))
            home_request fresh) =
        ([(''ok'', JBool False), (''error'', JStr ''Invalid request''),
          (''detail'', JStr ''Permission denied'')], 400)
   \<and> fst (provision (device 0 (RequestException ''timed out'') writable) home_request fresh) =
        ([(''ok'', JBool False), (''error'', JStr ''Failed to call edge function''),
          (''detail'', JStr ''timed out'')], 500)"
proof -
  let ?d = "device 0 (RequestException ''timed out'') (denied AP_RESTORED_FILE)"
  let ?g = "device 0 (RequestException ''timed out'') writable"
  have a: "fst (restore_ap_mode ?d fresh) = Inl (PyException ''Permission denied'')"
    by (simp add: restore_ap_mode_fails)
  have b: "fst (provision ?d home_request fresh) =
        ([(''ok'', JBool False), (''error'', JStr ''Invalid request''),
          (''detail'', JStr ''Permission denied'')], 400)"
    by (simp add: provision_unfolded fst_poll_outcome_device register_device_eq restore_then_eq
        invalid_request_reply_def)
  have c: "fst (provision ?g home_request fresh) =
        ([(''ok'', JBool False), (''error'', JStr ''Failed to call edge function''),
          (''detail'', JStr ''timed out'')], 500)"
    by (simp add: provision_unfolded fst_poll_outcome_device register_device_eq restore_then_eq
        edge_unreachable_reply_def)
  from a b c show ?thesis by simp
qed

subsection \<open>The verdict on the registration response\<close>

text \<open>
  Claim C4, amended. After a positive poll the verdict on the registration call is: a
  response with status 200, and no other, makes the handler go on to the provisioned
  marker (the open of the marker file is the next effect, and when it succeeds the marker
  is written and the reply is 200); a response with any other status, 201 and 204
  included, and a \<open>RequestException\<close> leave the provisioned marker as it was and, when the
  restore can open its own marker, are answered with the 500 of the rejected and of the
  unreachable registration.
\<close>

theorem provision_registration_verdict:
  assumes "accepted body = Some (t, s, p, dn)"
    and "open_error e (clock w) tmp_path = None"
    and "fst (poll_outcome e s p w)"
  shows "(registration e t s p dn w = Response 200 txt \<longrightarrow>
            hd (new_events (posted e t s p dn w) (snd (provision e body w))) =
              (if open_error e (clock (posted e t s p dn w)) PROVISIONED_FILE = None
               then Wrote PROVISIONED_FILE ''1'' else OpenFailed PROVISIONED_FILE)
          \<and> (open_error e (clock (posted e t s p dn w)) PROVISIONED_FILE = None \<longrightarrow>
                fst (provision e body w) = success_reply
              \<and> files (snd (provision e body w)) PROVISIONED_FILE = Some ''1''))
    \<and> (registration e t s p dn w = Response st txt \<and> st \<noteq> 200 \<longrightarrow>
            files (snd (provision e body w)) PROVISIONED_FILE = files w PROVISIONED_FILE
          \<and> (restore_can_mark e (posted e t s p dn w) \<longrightarrow>
                fst (provision e body w) = edge_failed_reply txt))
    \<and> (registration e t s p dn w = RequestException msg \<longrightarrow>
            files (snd (provision e body w)) PROVISIONED_FILE = files w PROVISIONED_FILE
          \<and> (restore_can_mark e (posted e t s p dn w) \<longrightarrow>
                fst (provision e body w) = edge_unreachable_reply msg))
    \<and> snd success_reply = 200 \<and> snd (edge_failed_reply txt) = 500
    \<and> snd (edge_unreachable_reply msg) = 500"
proof -
  let ?w2 = "posted e t s p dn w"
  have fw: "files ?w2 PROVISIONED_FILE = files w PROVISIONED_FILE"
    using assms(2) by (simp add: files_poll_outcome)
  have ok: "hd (new_events ?w2 (snd (provision e body w))) =
              (if open_error e (clock ?w2) PROVISIONED_FILE = None
               then Wrote PROVISIONED_FILE ''1'' else OpenFailed PROVISIONED_FILE)
          \<and> (open_error e (clock ?w2) PROVISIONED_FILE = None \<longrightarrow>
                fst (provision e body w) = success_reply
              \<and> files (snd (provision e body w)) PROVISIONED_FILE = Some ''1'')"
    if "registration e t s p dn w = Response 200 txt"
    using assms that
    by (simp add: provision_unfolded register_device_eq mark_provisioned_eq restore_then_eq
        split: option.splits)
  have rej: "files (snd (provision e body w)) PROVISIONED_FILE = files w PROVISIONED_FILE
          \<and> (restore_can_mark e ?w2 \<longrightarrow> fst (provision e body w) = edge_failed_reply txt)"
    if "registration e t s p dn w = Response st txt" "st \<noteq> 200"
    using assms that fw
    by (simp add: provision_unfolded register_device_eq restore_then_eq restore_can_mark_def
        split: option.splits)
  have unr: "files (snd (provision e body w)) PROVISIONED_FILE = files w PROVISIONED_FILE
          \<and> (restore_can_mark e ?w2 \<longrightarrow> fst (provision e body w) = edge_unreachable_reply msg)"
    if "registration e t s p dn w = RequestException msg"
    using assms that fw
    by (simp add: provision_unfolded register_device_eq restore_then_eq restore_can_mark_def
        split: option.splits)
  have st: "snd success_reply = 200" "snd (edge_failed_reply txt) = 500"
    "snd (edge_unreachable_reply msg) = 500"
    by (simp_all add: success_reply_def edge_failed_reply_def edge_unreachable_reply_def)
  from ok rej unr st show ?thesis by blast
qed

theorem provision_registration_verdict_witness:
  "(accepted home_request = Some (''abc12345'', ''HomeNet'', ''secret1'', Some ''Dev1'')
    \<and> open_error (device 0 (Response 200 ''done'') writable) (clock fresh) tmp_path = None
    \<and> fst (poll_outcome (device 0 (Response 200 ''done'') writable) ''HomeNet'' ''secret1'' fresh)
    \<and> registration (device 0 (Response 200 ''done'') writable)
         ''abc12345'' ''HomeNet'' ''secret1'' (Some ''Dev1'') fresh = Response 200 ''done'')
   \<and> fst (provision (device 0 (Response 200 ''done'') writable) home_request fresh) = success_reply
   \<and> files (snd (provision (device 0 (Response 200 ''done'') writable) home_request fresh))
        PROVISIONED_FILE = Some ''1''
   \<and> (fst (poll_outcome (device 0 (Response 404 ''no such token'') writable)
              ''HomeNet'' ''secret1'' fresh)
      \<and> registration (device 0 (Response 404 ''no such token'') writable)
           ''abc12345'' ''HomeNet'' ''secret1'' (Some ''Dev1'') fresh = Response 404 ''no such token''
      \<and> (404::int) \<noteq> 200)
   \<and> fst (provision (device 0 (Response 404 ''no such token'') writable) home_request fresh) =
        edge_failed_reply ''no such token''
   \<and> files (snd (provision (device 0 (Response 404 ''no such token'') writable) home_request fresh))
        PROVISIONED_FILE = None
   \<and> fst (provision (device 0 (RequestException ''connection refused'') writable)
            home_request fresh) = edge_unreachable_reply ''connection refused''"
proof -
  let ?a = "device 0 (Response 200 ''done'') writable"
  let ?b = "device 0 (Response 404 ''no such token'') writable"
  let ?c = "device 0 (RequestException ''connection refused'') writable"
  have acc: "accepted home_request = Some (''abc12345'', ''HomeNet'', ''secret1'', Some ''Dev1'')"
    by simp
  have ha: "open_error ?a (clock fresh) tmp_path = None"
    "fst (poll_outcome ?a ''HomeNet'' ''secret1'' fresh)"
    and hb: "open_error ?b (clock fresh) tmp_path = None"
    "fst (poll_outcome ?b ''HomeNet'' ''secret1'' fresh)"
    and hc: "open_error ?c (clock fresh) tmp_path = None"
    "fst (poll_outcome ?c ''HomeNet'' ''secret1'' fresh)"
    by (simp_all add: fst_poll_outcome_device)
  have f: "files fresh PROVISIONED_FILE = None" by (simp add: fresh_def)
  from provision_registration_verdict[OF acc ha, of "''done''" 404 "''x''"]
  have a: "fst (provision ?a home_request fresh) = success_reply"
    "files (snd (provision ?a home_request fresh)) PROVISIONED_FILE = Some ''1''"
    by simp_all
  from provision_registration_verdict[OF acc hb, of "''no such token''" 404 "''x''"]
  have b: "fst (provision ?b home_request fresh) = edge_failed_reply ''no such token''"
    "files (snd (provision ?b home_request fresh)) PROVISIONED_FILE = None"
    using f by simp_all
  from provision_registration_verdict[OF acc hc, of "''done''" 404 "''connection refused''"]
  have c: "fst (provision ?c home_request fresh) = edge_unreachable_reply ''connection refused''"
    by simp
  from a b c acc ha hb show ?thesis by simp
qed

text \<open>
  The claim as it stands fails at the status 201: the response is a 2xx one, the reply is
  the 500 of the rejected registration and no provisioned marker is written. And a
  response 404 is not answered as a rejected registration when the restore cannot open
  its marker.
\<close>

theorem provision_registration_verdict_counterexample:
  "fst (poll_outcome (device 0 (Response 201 ''created'') writable) ''HomeNet'' ''secret1'' fresh)
   \<and> registration (device 0 (Response 201 ''created'') writable)
        ''abc12345'' ''HomeNet'' ''secret1'' (Some ''Dev1'') fresh = Response 201 ''created''
   \<and> fst (provision (device 0 (Response 201 ''created'') writable) home_request fresh) =
        ([(''ok'', JBool False),
          (''error'', JStr ''Device connection registered but edge function failed''),
          (''detail'', JStr ''created'')], 500)
   \<and> files (snd (provision (device 0 (Response 201 ''created'') writable) home_request fresh))
        PROVISIONED_FILE = None
   \<and> registration (device 0 (Response 404 ''no such token'') (denied AP_RESTORED_FILE))
        ''abc12345'' ''HomeNet'' ''secret1'' (Some ''Dev1'') fresh = Response 404 ''no such token''
   \<and> fst (provision (device 0 (Response 404 ''no such token'') (denied AP_RESTORED_FILE))
            home_request fresh) =
        ([(''ok'', JBool False), (''error'', JStr ''Invalid request''),
          (''detail'', JStr ''Permission denied'')], 400)"
proof -
  let ?d = "device 0 (Response 201 ''created'') writable"
  let ?n = "device 0 (Response 404 ''no such token'') (denied AP_RESTORED_FILE)"
  have n: "fst (provision ?n home_request fresh) =
        ([(''ok'', JBool False), (''error'', JStr ''Invalid request''),
          (''detail'', JStr ''Permission denied'')], 400)"
    by (simp add: provision_unfolded fst_poll_outcome_device register_device_eq restore_then_eq
        invalid_request_reply_def)
  have a: "fst (poll_outcome ?d ''HomeNet'' ''secret1'' fresh)"
    by (simp add: fst_poll_outcome_device)
  have b: "fst (provision ?d home_request fresh) =
        ([(''ok'', JBool False),
          (''error'', JStr ''Device connection registered but edge function failed''),
          (''detail'', JStr ''created'')], 500)"
    using a
    by (simp add: provision_unfolded register_device_eq restore_then_eq edge_failed_reply_def)
  have c: "files (snd (provision ?d home_request fresh)) PROVISIONED_FILE = None"
    using a
    by (simp add: provision_unfolded register_device_eq restore_then_eq files_poll_outcome
        fresh_def)
  from a b c n show ?thesis by simp
qed

subsection \<open>Exceptions\<close>

lemma provision_config_fails:
  "accepted body = Some (t, s, p, dn) \<Longrightarrow> open_error e (clock w) tmp_path = Some msg \<Longrightarrow>
   provision e body w = (invalid_request_reply (PyException msg), emit (OpenFailed tmp_path) w)"
  by (simp add: provision_accepted provision_attempt_def write_file_def)

lemma provision_steps_raise:
  assumes "accepted body = Some (t, s, p, dn)" and "open_error e (clock w) tmp_path = None"
    and "fst (steps_outcome e t s p dn w) = Inl ex"
  shows "provision e body w =
     (case restore_then e (provisioning_failed_reply ex) (snd (steps_outcome e t s p dn w)) of
        (Inr r, w3) \<Rightarrow> (r, w3)
      | (Inl ex', w3) \<Rightarrow> (invalid_request_reply ex', w3))"
proof -
  from assms(3) have "steps_outcome e t s p dn w = (Inl ex, snd (steps_outcome e t s p dn w))"
    by (cases "steps_outcome e t s p dn w") simp
  then have "provision_steps e t s p dn (snd (write_file e tmp_path (create_wpa_config s p) w)) =
      (Inl ex, snd (steps_outcome e t s p dn w))"
    by (simp add: steps_outcome_def)
  with assms(1,2) show ?thesis
    by (simp add: provision_accepted provision_attempt_config_ok provision_guarded_def)
qed

text \<open>
  Claim C6, amended. An exception that leaves the steps 2 to 8 is caught by the handler of
  the inner \<open>try\<close>: the two start commands of the restore are the next effects, before
  any reply, and when the restore can open its marker the reply is 500 with the error
  \<open>Provisioning failed\<close> and the text of the exception as detail. An exception before
  step 2 (the body is not a JSON object, the configuration file cannot be opened) is
  caught by the outer handler: the reply is 400 with the error \<open>Invalid request\<close> and the
  text of the exception as detail, and no restore is run.
\<close>

theorem provision_exception_handling:
  "(accepted body = Some (t, s, p, dn) \<and> open_error e (clock w) tmp_path = None
      \<and> fst (steps_outcome e t s p dn w) = Inl ex \<longrightarrow>
        take 2 (new_events (snd (steps_outcome e t s p dn w)) (snd (provision e body w))) =
          restore_commands e (snd (steps_outcome e t s p dn w))
      \<and> (restore_can_mark e (snd (steps_outcome e t s p dn w)) \<longrightarrow>
            fst (provision e body w) = provisioning_failed_reply ex
          \<and> files (snd (provision e body w)) AP_RESTORED_FILE = Some []))
   \<and> (accepted body = Some (t, s, p, dn) \<and> open_error e (clock w) tmp_path = Some msg \<longrightarrow>
        provision e body w =
          (invalid_request_reply (PyException msg), emit (OpenFailed tmp_path) w))
   \<and> (request_data body = Inl ex \<longrightarrow> provision e body w = (invalid_request_reply ex, w))
   \<and> provisioning_failed_reply ex =
        ([(''ok'', JBool False), (''error'', JStr ''Provisioning failed''),
          (''detail'', JStr (str_of ex))], 500)
   \<and> invalid_request_reply ex =
        ([(''ok'', JBool False), (''error'', JStr ''Invalid request''),
          (''detail'', JStr (str_of ex))], 400)"
proof -
  let ?w1 = "snd (steps_outcome e t s p dn w)"
  have a: "take 2 (new_events ?w1 (snd (provision e body w))) = restore_commands e ?w1
      \<and> (restore_can_mark e ?w1 \<longrightarrow>
            fst (provision e body w) = provisioning_failed_reply ex
          \<and> files (snd (provision e body w)) AP_RESTORED_FILE = Some [])"
    if "accepted body = Some (t, s, p, dn)" "open_error e (clock w) tmp_path = None"
      "fst (steps_outcome e t s p dn w) = Inl ex"
    using provision_steps_raise[OF that]
    by (simp add: restore_then_eq restore_can_mark_def split: option.splits)
  show ?thesis
    using a
    by (simp add: provision_config_fails provision_bad_body provisioning_failed_reply_def
        invalid_request_reply_def)
qed

lemma steps_outcome_eq:
  "steps_outcome e t s p dn w =
     (if \<not> fst (poll_outcome e s p w)
      then restore_then e connect_failed_reply (snd (poll_outcome e s p w))
      else register_device e t s p dn (snd (poll_outcome e s p w)))"
  by (simp add: steps_outcome_def provision_steps_poll)

theorem provision_exception_handling_witness:
  "(accepted home_request = Some (''abc12345'', ''HomeNet'', ''secret1'', Some ''Dev1'')
    \<and> open_error (device 0 (OtherException ''boom'') writable) (clock fresh) tmp_path = None
    \<and> fst (steps_outcome (device 0 (OtherException ''boom'') writable)
              ''abc12345'' ''HomeNet'' ''secret1'' (Some ''Dev1'') fresh) = Inl (PyException ''boom'')
    \<and> restore_can_mark (device 0 (OtherException ''boom'') writable)
         (snd (steps_outcome (device 0 (OtherException ''boom'') writable)
              ''abc12345'' ''HomeNet'' ''secret1'' (Some ''Dev1'') fresh)))
   \<and> fst (provision (device 0 (OtherException ''boom'') writable) home_request fresh) =
        ([(''ok'', JBool False), (''error'', JStr ''Provisioning failed''),
          (''detail'', JStr ''boom'')], 500)
   \<and> files (snd (provision (device 0 (OtherException ''boom'') writable) home_request fresh))
        AP_RESTORED_FILE = Some []
   \<and> open_error (device 0 (Response 200 ''ok'') (busy_until 1 tmp_path)) (clock fresh) tmp_path =
        Some ''Device or resource busy''
   \<and> provision (device 0 (Response 200 ''ok'') (busy_until 1 tmp_path)) home_request fresh =
        (([(''ok'', JBool False), (''error'', JStr ''Invalid request''),
           (''detail'', JStr ''Device or resource busy'')], 400),
         emit (OpenFailed tmp_path) fresh)
   \<and> request_data (NonDict ''list object has no attribute get'') =
        Inl (PyException ''list object has no attribute get'')
   \<and> provision (device 0 (Response 200 ''ok'') writable)
        (NonDict ''list object has no attribute get'') fresh =
        (([(''ok'', JBool False), (''error'', JStr ''Invalid request''),
           (''detail'', JStr ''list object has no attribute get'')], 400), fresh)"
proof -
  let ?d = "device 0 (OtherException ''boom'') writable"
  let ?b = "device 0 (Response 200 ''ok'') (busy_until 1 tmp_path)"
  let ?g = "device 0 (Response 200 ''ok'') writable"
  have acc: "accepted home_request = Some (''abc12345'', ''HomeNet'', ''secret1'', Some ''Dev1'')"
    by simp
  have h: "open_error ?d (clock fresh) tmp_path = None"
    "fst (steps_outcome ?d ''abc12345'' ''HomeNet'' ''secret1'' (Some ''Dev1'') fresh) =
       Inl (PyException ''boom'')"
    "restore_can_mark ?d (snd (steps_outcome ?d ''abc12345'' ''HomeNet'' ''secret1'' (Some ''Dev1'') fresh))"
    by (simp_all add: steps_outcome_eq fst_poll_outcome_device register_device_eq)
  have hb: "open_error ?b (clock fresh) tmp_path = Some ''Device or resource busy''"
    by (simp add: busy_until_def)
  have hn: "request_data (NonDict ''list object has no attribute get'') =
        Inl (PyException ''list object has no attribute get'')"
    by (simp add: request_data_def)
  from provision_exception_handling[of home_request "''abc12345''" "''HomeNet''" "''secret1''"
      "Some ''Dev1''" ?d fresh "PyException ''boom''" "''x''"] acc h
  have a: "fst (provision ?d home_request fresh) =
        ([(''ok'', JBool False), (''error'', JStr ''Provisioning failed''),
          (''detail'', JStr ''boom'')], 500)"
    "files (snd (provision ?d home_request fresh)) AP_RESTORED_FILE = Some []"
    by simp_all
  from provision_exception_handling[of home_request "''abc12345''" "''HomeNet''" "''secret1''"
      "Some ''Dev1''" ?b fresh "PyException ''Device or resource busy''"
      "''Device or resource busy''"] acc hb
  have b: "provision ?b home_request fresh =
        (([(''ok'', JBool False), (''error'', JStr ''Invalid request''),
           (''detail'', JStr ''Device or resource busy'')], 400),
         emit (OpenFailed tmp_path) fresh)"
    by simp
  from provision_exception_handling[of "NonDict ''list object has no attribute get''"
      "''abc12345''" "''HomeNet''" "''secret1''" "Some ''Dev1''" ?g fresh
      "PyException ''list object has no attribute get''" "''x''"] hn
  have c: "provision ?g (NonDict ''list object has no attribute get'') fresh =
        (([(''ok'', JBool False), (''error'', JStr ''Invalid request''),
           (''detail'', JStr ''list object has no attribute get'')], 400), fresh)"
    by simp
  from a b c acc h hb hn show ?thesis by simp
qed

text \<open>
  The claim as it stands fails at step 1, which is outside the inner \<open>try\<close>: when the
  configuration file cannot be opened, the reply is the 400 of the outer handler and the
  log holds the failed open and nothing else; no command of the restore is run.
\<close>

theorem provision_exception_handling_counterexample:
  "accepted home_request = Some (''abc12345'', ''HomeNet'', ''secret1'', Some ''Dev1'')
   \<and> provision (device 0 (Response 200 ''ok'') (denied tmp_path)) home_request fresh =
        (([(''ok'', JBool False), (''error'', JStr ''Invalid request''),
           (''detail'', JStr ''Permission denied'')], 400),
         \<lparr>files = Map.empty, trace = [OpenFailed tmp_path]\<rparr>)
   \<and> issued (trace (snd (provision (device 0 (Response 200 ''ok'') (denied tmp_path))
                           home_request fresh))) = []"
proof -
  let ?d = "device 0 (Response 200 ''ok'') (denied tmp_path)"
  have "provision ?d home_request fresh =
        (([(''ok'', JBool False), (''error'', JStr ''Invalid request''),
           (''detail'', JStr ''Permission denied'')], 400),
         \<lparr>files = Map.empty, trace = [OpenFailed tmp_path]\<rparr>)"
    by (simp add: provision_config_fails[where msg="''Permission denied''"]
        invalid_request_reply_def emit_def fresh_def)
  then show ?thesis by simp
qed

subsection \<open>The provisioned marker\<close>

lemma provision_rejected:
  "accepted body = None \<Longrightarrow>
   snd (provision e body w) = w \<and> snd (fst (provision e body w)) = 400"
  by (cases "request_data body")
     (simp_all add: provision_bad_body provision_not_accepted invalid_request_reply_def
       missing_fields_reply_def)

lemma reply_statuses [simp]:
  "snd connect_failed_reply = 400" "snd (edge_failed_reply x) = 500"
  "snd (edge_unreachable_reply x) = 500" "snd success_reply = 200"
  "snd (provisioning_failed_reply ex) = 500" "snd (invalid_request_reply ex) = 400"
  "snd missing_fields_reply = 400"
  by (simp_all add: connect_failed_reply_def edge_failed_reply_def edge_unreachable_reply_def
      success_reply_def provisioning_failed_reply_def invalid_request_reply_def
      missing_fields_reply_def)

lemma provision_flag_accepted:
  assumes acc: "accepted body = Some (t, s, p, dn)"
  shows "files (snd (provision e body w)) PROVISIONED_FILE =
       (if registered e body w \<and> marker_opens e body w then Some ''1''
        else files w PROVISIONED_FILE)
   \<and> (snd (fst (provision e body w)) = 200 \<longleftrightarrow> registered e body w \<and> marker_opens e body w)
   \<and> dom (files w) \<subseteq> dom (files (snd (provision e body w)))"
proof (cases "open_error e (clock w) tmp_path")
  case (Some msg)
  with acc show ?thesis
    by (simp add: provision_config_fails registered_def)
next
  case None
  show ?thesis
  proof (cases "fst (poll_outcome e s p w)")
    case False
    with acc None show ?thesis
      by (auto simp add: provision_unfolded registered_def restore_then_eq files_poll_outcome
          split: option.splits)
  next
    case True
    show ?thesis
    proof (cases "registration e t s p dn w")
      case (Response st rtext)
      with acc None True show ?thesis
        by (auto simp add: provision_unfolded registered_def marker_opens_def
            register_device_eq mark_provisioned_eq restore_then_eq files_poll_outcome
            split: option.splits)
    next
      case (RequestException msg)
      with acc None True show ?thesis
        by (auto simp add: provision_unfolded registered_def marker_opens_def
            register_device_eq restore_then_eq files_poll_outcome
            split: option.splits)
    next
      case (OtherException msg)
      with acc None True show ?thesis
        by (auto simp add: provision_unfolded registered_def marker_opens_def
            register_device_eq restore_then_eq files_poll_outcome
            split: option.splits)
    qed
  qed
qed

lemma failing_join_simps [simp]:
  "open_error (failing_join e) = open_error e"
  "post_outcome (failing_join e) = post_outcome e"
  "sh_outcome (failing_join e) t probe_cmd = sh_outcome e t probe_cmd"
  by (simp_all add: failing_join_def)

lemma positive_at_failing_join:
  "clock w' = clock w \<Longrightarrow> positive_at (failing_join e) w' j = positive_at e w j"
  by (simp add: positive_at_def probe_at_def)

lemma poll_same_answers:
  assumes "clock w' = clock w" and "\<And>j. positive_at e' w' j = positive_at e w j"
  shows "fst (poll e' n w') = fst (poll e n w)
    \<and> clock (snd (poll e' n w')) = clock (snd (poll e n w))"
proof (cases rule: poll_cases[of n e w])
  case exhausted
  then have "\<forall>j<n. \<not> positive_at e' w' j" using assms(2) by simp
  from poll_exhausted[OF this] exhausted(2) assms(1) show ?thesis by simp
next
  case (found k)
  then have "k < n" "positive_at e' w' k" "\<forall>j<k. \<not> positive_at e' w' j"
    using assms(2) by simp_all
  from poll_first_positive[OF this] found(4) assms(1) show ?thesis by simp
qed

lemma poll_outcome_failing_join:
  "fst (poll_outcome (failing_join e) s p w) = fst (poll_outcome e s p w)
   \<and> clock (snd (poll_outcome (failing_join e) s p w)) = clock (snd (poll_outcome e s p w))"
  unfolding poll_outcome_def is_connected_to_wifi_def
  by (rule poll_same_answers) (simp_all add: positive_at_failing_join)

lemma registered_failing_join: "registered (failing_join e) body w = registered e body w"
  by (simp add: registered_def registration_def poll_outcome_failing_join
      split: option.splits)

lemma marker_opens_failing_join: "marker_opens (failing_join e) body w = marker_opens e body w"
  by (simp add: marker_opens_def poll_outcome_failing_join split: option.splits)


lemma trace_polling_start:
  "open_error e (clock w) tmp_path = None \<Longrightarrow>
   trace (polling_start e s p w) =
     trace w @
     [Wrote tmp_path (create_wpa_config s p),
      Exec ''systemctl stop hostapd'' (sh_outcome e (clock w + 1) ''systemctl stop hostapd''),
      Exec ''systemctl stop dnsmasq'' (sh_outcome e (clock w + 2) ''systemctl stop dnsmasq''),
      Sleep 1,
      Exec (''cp '' @ tmp_path @ '' /etc/wpa_supplicant/wpa_supplicant.conf'')
        (sh_outcome e (clock w + 4) (''cp '' @ tmp_path @ '' /etc/wpa_supplicant/wpa_supplicant.conf'')),
      Exec ''wpa_cli -i wlan0 reconfigure'' (sh_outcome e (clock w + 5) ''wpa_cli -i wlan0 reconfigure''),
      Sleep 2]"
  by (simp add: polling_start_def switch_to_hotspot_def write_file_def Let_def numeral_eq_Suc)

lemma trace_poll_extends: "\<exists>evs. trace (snd (poll e n w)) = trace w @ evs"
  by (cases rule: poll_cases[of n e w]) simp_all

lemma trace_poll_outcome_keeps:
  "set (trace (polling_start e s p w)) \<subseteq> set (trace (snd (poll_outcome e s p w)))"
proof -
  from trace_poll_extends[of e 20 "polling_start e s p w"] obtain evs where
    "trace (snd (poll e 20 (polling_start e s p w))) = trace (polling_start e s p w) @ evs"
    by blast
  then show ?thesis
    by (simp add: poll_outcome_def is_connected_to_wifi_def)
qed

text \<open>
  Claim C1, amended. An attempt writes the provisioned marker exactly when the request is
  accepted, the configuration file is written, the poll finds an address, the
  registration is answered 200 and the marker file can be opened then, and these are
  exactly the attempts answered 200; every other attempt leaves the marker as it was.
  What the commands that place the configuration and reconfigure the interface return
  plays no part in it: on a device where all of them fail the same attempts get that
  far. No attempt removes a file. \<open>GET /provision-status\<close> reports
  \<open>provisioned: true\<close> exactly when the marker exists.
\<close>

theorem provisioned_flag_invariant:
  "files (snd (provision e body w)) PROVISIONED_FILE =
       (if registered e body w \<and> marker_opens e body w then Some ''1''
        else files w PROVISIONED_FILE)
   \<and> (snd (fst (provision e body w)) = 200 \<longleftrightarrow> registered e body w \<and> marker_opens e body w)
   \<and> dom (files w) \<subseteq> dom (files (snd (provision e body w)))
   \<and> provision_status v =
        ([(''ok'', JBool True), (''provisioned'', JBool (PROVISIONED_FILE \<in> dom (files v)))], 200)
   \<and> registered (failing_join e) body w = registered e body w
   \<and> marker_opens (failing_join e) body w = marker_opens e body w"
proof -
  have st: "provision_status v =
        ([(''ok'', JBool True), (''provisioned'', JBool (PROVISIONED_FILE \<in> dom (files v)))], 200)"
    by (auto simp add: provision_status_def)
  show ?thesis
  proof (cases "accepted body")
    case None
    with provision_rejected[OF None, of e w] st show ?thesis
      by (simp add: registered_def registered_failing_join marker_opens_failing_join)
  next
    case (Some f)
    obtain t s p dn where "f = (t, s, p, dn)" by (cases f) auto
    with Some provision_flag_accepted[of body t s p dn e w] st show ?thesis
      by (simp add: registered_failing_join marker_opens_failing_join)
  qed
qed

theorem provisioned_flag_invariant_witness:
  "(registered (device 11 (Response 200 ''ok'') writable) home_request fresh
    \<and> marker_opens (device 11 (Response 200 ''ok'') writable) home_request fresh)
   \<and> files (snd (provision (device 11 (Response 200 ''ok'') writable) home_request fresh))
        PROVISIONED_FILE = Some ''1''
   \<and> snd (fst (provision (device 11 (Response 200 ''ok'') writable) home_request fresh)) = 200
   \<and> provision_status (snd (provision (device 11 (Response 200 ''ok'') writable)
                               home_request fresh)) =
        ([(''ok'', JBool True), (''provisioned'', JBool True)], 200)
   \<and> \<not> registered (device 1000 (Response 200 ''ok'') writable) home_request fresh
   \<and> files (snd (provision (device 1000 (Response 200 ''ok'') writable) home_request fresh))
        PROVISIONED_FILE = None
   \<and> provision_status (snd (provision (device 1000 (Response 200 ''ok'') writable)
                               home_request fresh)) =
        ([(''ok'', JBool True), (''provisioned'', JBool False)], 200)"
proof -
  let ?g = "device 11 (Response 200 ''ok'') writable"
  let ?n = "device 1000 (Response 200 ''ok'') writable"
  have h: "registered ?g home_request fresh" "marker_opens ?g home_request fresh"
    "\<not> registered ?n home_request fresh"
    by (simp_all add: registered_def marker_opens_def fst_poll_outcome_device)
  have f: "files fresh PROVISIONED_FILE = None" by (simp add: fresh_def)
  from provisioned_flag_invariant[of ?g home_request fresh "snd (provision ?g home_request fresh)"] h
  have a: "files (snd (provision ?g home_request fresh)) PROVISIONED_FILE = Some ''1''"
    "snd (fst (provision ?g home_request fresh)) = 200"
    "provision_status (snd (provision ?g home_request fresh)) =
        ([(''ok'', JBool True), (''provisioned'', JBool True)], 200)"
    by auto
  from provisioned_flag_invariant[of ?n home_request fresh "snd (provision ?n home_request fresh)"] h f
  have b: "files (snd (provision ?n home_request fresh)) PROVISIONED_FILE = None"
    "provision_status (snd (provision ?n home_request fresh)) =
        ([(''ok'', JBool True), (''provisioned'', JBool False)], 200)"
    by auto
  from a b h show ?thesis by simp
qed

text \<open>
  The claim as it stands fails in two ways. When the provisioned marker cannot be opened,
  the probe found an address, the registration returned 200, and the marker is not set;
  the reply is the 500 of the inner handler. And on a device where the copy of the
  configuration and the reconfiguration both return the code 1, so that nothing was done
  to join the network, an address on the interface and a registration answered 200 are
  enough: the marker is written and the reply is 200.
\<close>

theorem provisioned_flag_invariant_counterexample:
  "registered (device 0 (Response 200 ''ok'') (denied PROVISIONED_FILE)) home_request fresh
   \<and> files (snd (provision (device 0 (Response 200 ''ok'') (denied PROVISIONED_FILE))
                   home_request fresh)) PROVISIONED_FILE = None
   \<and> fst (provision (device 0 (Response 200 ''ok'') (denied PROVISIONED_FILE))
            home_request fresh) =
        ([(''ok'', JBool False), (''error'', JStr ''Provisioning failed''),
          (''detail'', JStr ''Permission denied'')], 500)
   \<and> Exec (''cp '' @ tmp_path @ '' /etc/wpa_supplicant/wpa_supplicant.conf'') (Completed 1 [])
      \<in> set (trace (snd (provision (failing_join (device 0 (Response 200 ''ok'') writable))
                             home_request fresh)))
   \<and> Exec ''wpa_cli -i wlan0 reconfigure'' (Completed 1 [])
      \<in> set (trace (snd (provision (failing_join (device 0 (Response 200 ''ok'') writable))
                             home_request fresh)))
   \<and> files (snd (provision (failing_join (device 0 (Response 200 ''ok'') writable))
                   home_request fresh)) PROVISIONED_FILE = Some ''1''
   \<and> fst (provision (failing_join (device 0 (Response 200 ''ok'') writable))
            home_request fresh) =
        ([(''ok'', JBool True), (''message'', JStr ''Device provisioned successfully'')], 200)"
proof -
  let ?d = "device 0 (Response 200 ''ok'') (denied PROVISIONED_FILE)"
  have a: "registered ?d home_request fresh"
    by (simp add: registered_def fst_poll_outcome_device)
  have b: "files (snd (provision ?d home_request fresh)) PROVISIONED_FILE = None"
    by (simp add: provision_unfolded fst_poll_outcome_device register_device_eq
        mark_provisioned_eq restore_then_eq files_poll_outcome fresh_def)
  have c: "fst (provision ?d home_request fresh) =
        ([(''ok'', JBool False), (''error'', JStr ''Provisioning failed''),
          (''detail'', JStr ''Permission denied'')], 500)"
    by (simp add: provision_unfolded fst_poll_outcome_device register_device_eq
        mark_provisioned_eq restore_then_eq provisioning_failed_reply_def)
  let ?j = "failing_join (device 0 (Response 200 ''ok'') writable)"
  have jo: "open_error ?j (clock fresh) tmp_path = None" by simp
  have jp: "fst (poll_outcome ?j ''HomeNet'' ''secret1'' fresh)"
    by (simp add: poll_outcome_failing_join fst_poll_outcome_device)
  have jr: "registration ?j ''abc12345'' ''HomeNet'' ''secret1'' (Some ''Dev1'') fresh = Response 200 ''ok''"
    by (simp add: registration_def)
  have jw: "provision ?j home_request fresh =
      (success_reply,
       (posted ?j ''abc12345'' ''HomeNet'' ''secret1'' (Some ''Dev1'') fresh)
         \<lparr>files := (files (posted ?j ''abc12345'' ''HomeNet'' ''secret1'' (Some ''Dev1'') fresh))
                     (PROVISIONED_FILE \<mapsto> ''1''),
          trace := trace (posted ?j ''abc12345'' ''HomeNet'' ''secret1'' (Some ''Dev1'') fresh) @
                   Wrote PROVISIONED_FILE ''1'' #
                   stop_commands ?j (posted ?j ''abc12345'' ''HomeNet'' ''secret1'' (Some ''Dev1'') fresh)\<rparr>)"
    using jo jp jr
    by (simp add: provision_unfolded register_device_eq mark_provisioned_eq)
  have jt: "set (trace (polling_start ?j ''HomeNet'' ''secret1'' fresh)) \<subseteq>
      set (trace (snd (provision ?j home_request fresh)))"
    using trace_poll_outcome_keeps[of ?j "''HomeNet''" "''secret1''" fresh]
    by (auto simp add: jw trace_posted)
  have js1: "\<And>t. sh_outcome ?j t (''cp '' @ tmp_path @ '' /etc/wpa_supplicant/wpa_supplicant.conf'') =
      Completed 1 []"
    and js2: "\<And>t. sh_outcome ?j t ''wpa_cli -i wlan0 reconfigure'' = Completed 1 []"
    by (simp_all add: failing_join_def probe_cmd_def WLAN_INTERFACE_def tmp_path_def)
  have jc: "Exec (''cp '' @ tmp_path @ '' /etc/wpa_supplicant/wpa_supplicant.conf'') (Completed 1 [])
      \<in> set (trace (polling_start ?j ''HomeNet'' ''secret1'' fresh))"
    "Exec ''wpa_cli -i wlan0 reconfigure'' (Completed 1 [])
      \<in> set (trace (polling_start ?j ''HomeNet'' ''secret1'' fresh))"
    unfolding trace_polling_start[OF jo] js1 js2 by simp_all
  from jc jt have jm: "Exec (''cp '' @ tmp_path @ '' /etc/wpa_supplicant/wpa_supplicant.conf'') (Completed 1 [])
      \<in> set (trace (snd (provision ?j home_request fresh)))"
    "Exec ''wpa_cli -i wlan0 reconfigure'' (Completed 1 [])
      \<in> set (trace (snd (provision ?j home_request fresh)))"
    by blast+
  have jf: "files (snd (provision ?j home_request fresh)) PROVISIONED_FILE = Some ''1''"
    "fst (provision ?j home_request fresh) =
        ([(''ok'', JBool True), (''message'', JStr ''Device provisioned successfully'')], 200)"
    by (simp_all add: jw success_reply_def)
  from a b c jm jf show ?thesis by blast
qed

subsection \<open>The configuration text\<close>

lemma create_wpa_config_parts:
  "create_wpa_config ssid password = wpa_head @ ssid @ wpa_mid @ password @ wpa_tail"
  by (simp add: create_wpa_config_def wpa_head_def wpa_mid_def wpa_tail_def)

lemma special_chars_distinct [simp]: "dq \<noteq> nl" "nl \<noteq> dq" "tab \<noteq> nl" "nl \<noteq> tab"
  by (simp_all add: dq_def nl_def tab_def)

lemma takeWhile_absent:
  "a \<notin> set s \<Longrightarrow> takeWhile (\<lambda>c. c \<noteq> a) (s @ r) = s @ takeWhile (\<lambda>c. c \<noteq> a) r"
  by (induction s) auto

lemma split_at_newline:
  assumes "nl \<notin> set s" "nl \<notin> set s'" "s @ dq # nl # r = s' @ dq # nl # r'"
  shows "s = s' \<and> r = r'"
proof -
  have "takeWhile (\<lambda>c. c \<noteq> nl) (s @ dq # nl # r) = s @ [dq]"
    using assms(1) by (simp add: takeWhile_absent)
  moreover have "takeWhile (\<lambda>c. c \<noteq> nl) (s' @ dq # nl # r') = s' @ [dq]"
    using assms(2) by (simp add: takeWhile_absent)
  ultimately have "s = s'" using assms(3) by simp
  with assms(3) show ?thesis by simp
qed

lemma split_at_quote:
  assumes "dq \<notin> set s" "dq \<notin> set s'" "s @ dq # r = s' @ dq # r'"
  shows "s = s' \<and> r = r'"
proof -
  have "takeWhile (\<lambda>c. c \<noteq> dq) (s @ dq # r) = s"
    using assms(1) by (simp add: takeWhile_absent)
  moreover have "takeWhile (\<lambda>c. c \<noteq> dq) (s' @ dq # r') = s'"
    using assms(2) by (simp add: takeWhile_absent)
  ultimately have "s = s'" using assms(3) by simp
  with assms(3) show ?thesis by simp
qed

lemma create_wpa_config_determines:
  assumes "(nl \<notin> set ssid \<and> nl \<notin> set ssid') \<or> (dq \<notin> set ssid \<and> dq \<notin> set ssid')"
    and "create_wpa_config ssid password = create_wpa_config ssid' password'"
  shows "ssid = ssid' \<and> password = password'"
proof -
  from assms(2) have eq: "ssid @ wpa_mid @ password = ssid' @ wpa_mid @ password'"
    by (simp add: create_wpa_config_parts)
  have s: "ssid = ssid'"
    using assms(1) eq split_at_newline[of ssid ssid'] split_at_quote[of ssid ssid']
    by (auto simp add: wpa_mid_def)
  with eq show ?thesis by simp
qed

lemma count_create_wpa_config:
  "count_list (create_wpa_config ssid password) c =
     count_list ssid c + count_list password c +
     (count_list wpa_head c + count_list wpa_mid c + count_list wpa_tail c)"
  by (simp add: create_wpa_config_parts)

lemma count_fixed_parts:
  "count_list wpa_head nl + count_list wpa_mid nl + count_list wpa_tail nl = 9"
  "count_list wpa_head dq + count_list wpa_mid dq + count_list wpa_tail dq = 4"
  by (simp_all add: wpa_head_def wpa_mid_def wpa_tail_def nl_def dq_def tab_def)

lemma same_config_same_absence:
  assumes "c \<notin> set ssid" "c \<notin> set password"
    and "create_wpa_config ssid password = create_wpa_config ssid' password'"
  shows "c \<notin> set ssid' \<and> c \<notin> set password'"
proof -
  from assms(3) have "count_list (create_wpa_config ssid password) c =
      count_list (create_wpa_config ssid' password') c"
    by simp
  then have "count_list ssid c + count_list password c =
      count_list ssid' c + count_list password' c"
    by (simp add: count_create_wpa_config)
  moreover from assms(1,2) have "count_list ssid c = 0" "count_list password c = 0"
    by (simp_all add: count_list_0_iff)
  ultimately have "count_list ssid' c = 0" "count_list password' c = 0"
    by simp_all
  then show ?thesis by (simp add: count_list_0_iff)
qed

lemma create_wpa_config_determines_one_sided:
  assumes "(nl \<notin> set ssid \<and> nl \<notin> set password) \<or> (dq \<notin> set ssid \<and> dq \<notin> set password)"
    and "create_wpa_config ssid password = create_wpa_config ssid' password'"
  shows "ssid = ssid' \<and> password = password'"
proof -
  from assms(1) show ?thesis
  proof
    assume a: "nl \<notin> set ssid \<and> nl \<notin> set password"
    with same_config_same_absence[of nl ssid password ssid' password'] assms(2)
    have "nl \<notin> set ssid'" by simp
    with a create_wpa_config_determines[of ssid ssid' password password'] assms(2)
    show ?thesis by simp
  next
    assume a: "dq \<notin> set ssid \<and> dq \<notin> set password"
    with same_config_same_absence[of dq ssid password ssid' password'] assms(2)
    have "dq \<notin> set ssid'" by simp
    with a create_wpa_config_determines[of ssid ssid' password password'] assms(2)
    show ?thesis by simp
  qed
qed

text \<open>
  Claim C8, amended. The configuration is the fixed text with ssid and password put
  between the double quotes as they are: nothing is escaped, the text is the three fixed
  parts with the two values in between, exactly as long as the template and the two
  values, with as many double quotes as the template and the two values. When neither
  the ssid nor the password has a newline (or neither has a double quote), no other pair
  of ssid and password has the same configuration. And two requests whose ssids both have
  no newline (or both no double quote) and whose configurations are the same have the
  same ssid and the same password.
\<close>

theorem create_wpa_config_verbatim:
  "create_wpa_config ssid password = wpa_head @ ssid @ wpa_mid @ password @ wpa_tail
   \<and> length (create_wpa_config ssid password) = length ssid + length password + 126
   \<and> count_list (create_wpa_config ssid password) dq =
        count_list ssid dq + count_list password dq + 4
   \<and> ((nl \<notin> set ssid \<and> nl \<notin> set password) \<or> (dq \<notin> set ssid \<and> dq \<notin> set password) \<longrightarrow>
        create_wpa_config ssid password = create_wpa_config ssid' password' \<longrightarrow>
          ssid = ssid' \<and> password = password')
   \<and> ((nl \<notin> set ssid \<and> nl \<notin> set ssid') \<or> (dq \<notin> set ssid \<and> dq \<notin> set ssid') \<longrightarrow>
        create_wpa_config ssid password = create_wpa_config ssid' password' \<longrightarrow>
          ssid = ssid' \<and> password = password')"
proof -
  have a: "length (create_wpa_config ssid password) = length ssid + length password + 126"
    by (simp add: create_wpa_config_def)
  have b: "count_list (create_wpa_config ssid password) dq =
        count_list ssid dq + count_list password dq + 4"
    by (simp add: create_wpa_config_def dq_def nl_def tab_def)
  from a b create_wpa_config_parts[of ssid password]
    create_wpa_config_determines[of ssid ssid' password password']
    create_wpa_config_determines_one_sided[of ssid password ssid' password']
  show ?thesis
    by blast
qed

theorem create_wpa_config_verbatim_witness:
  "(nl \<notin> set (''Home'' @ [dq] @ ''Net'') \<and> nl \<notin> set (''se'' @ [dq] @ ''cret'')
    \<and> create_wpa_config (''Home'' @ [dq] @ ''Net'') (''se'' @ [dq] @ ''cret'') =
        wpa_head @ ''Home'' @ [dq] @ ''Net'' @ wpa_mid @ ''se'' @ [dq] @ ''cret'' @ wpa_tail)
   \<and> length (create_wpa_config (''Home'' @ [dq] @ ''Net'') (''se'' @ [dq] @ ''cret'')) = 141
   \<and> count_list (create_wpa_config (''Home'' @ [dq] @ ''Net'') (''se'' @ [dq] @ ''cret'')) dq = 6
   \<and> create_wpa_config (''Home'' @ [dq] @ ''Net'') (''se'' @ [dq] @ ''cret'') \<noteq>
       create_wpa_config ''Home'' (''Net'' @ [dq, nl, tab] @ ''psk='' @ [dq] @ ''se'' @ [dq] @ ''cret'')"
proof -
  let ?s = "''Home'' @ [dq] @ ''Net''"
  let ?p = "''se'' @ [dq] @ ''cret''"
  let ?s2 = "''Home''"
  let ?p2 = "''Net'' @ [dq, nl, tab] @ ''psk='' @ [dq] @ ''se'' @ [dq] @ ''cret''"
  have n: "nl \<notin> set ?s" "nl \<notin> set ?p"
    by (simp_all add: nl_def dq_def)
  have c: "count_list ?s dq = 1" "count_list ?p dq = 1" "length ?s = 8" "length ?p = 7"
    by (simp_all add: dq_def)
  have d: "create_wpa_config ?s ?p = wpa_head @ ?s @ wpa_mid @ ?p @ wpa_tail"
    by (simp only: create_wpa_config_parts)
  have ne: "?s \<noteq> ?s2" by simp
  from create_wpa_config_verbatim[of ?s ?p ?s2 ?p2] n ne
  have g: "create_wpa_config ?s ?p \<noteq> create_wpa_config ?s2 ?p2"
    by blast
  from create_wpa_config_verbatim[of ?s ?p ?s ?p]
  have "length (create_wpa_config ?s ?p) = length ?s + length ?p + 126"
    "count_list (create_wpa_config ?s ?p) dq = count_list ?s dq + count_list ?p dq + 4"
    by blast+
  moreover have "(8::nat) + 7 + 126 = 141" "(1::nat) + 1 + 4 = 6" by simp_all
  ultimately have f: "length (create_wpa_config ?s ?p) = 141"
    "count_list (create_wpa_config ?s ?p) dq = 6"
    by (simp_all only: c)
  from n d f g show ?thesis by (simp only: simp_thms append_assoc)
qed

text \<open>
  The claim as it stands fails: two different pairs of ssid and password, each value with
  an embedded double quote, have the same configuration, so no reader of the
  configuration gives back the original strings for both.
\<close>

theorem create_wpa_config_verbatim_counterexample:
  "create_wpa_config (''a'' @ [dq] @ ''b'') (''c'' @ [dq, nl, tab] @ ''psk='' @ [dq] @ ''d'' @ [dq] @ ''e'') =
   create_wpa_config (''a'' @ [dq] @ ''b'' @ [dq, nl, tab] @ ''psk='' @ [dq] @ ''c'') (''d'' @ [dq] @ ''e'')
   \<and> ''a'' @ [dq] @ ''b'' \<noteq> ''a'' @ [dq] @ ''b'' @ [dq, nl, tab] @ ''psk='' @ [dq] @ ''c''
   \<and> dq \<in> set (''a'' @ [dq] @ ''b'')
   \<and> dq \<in> set (''c'' @ [dq, nl, tab] @ ''psk='' @ [dq] @ ''d'' @ [dq] @ ''e'')
   \<and> dq \<in> set (''d'' @ [dq] @ ''e'')"
  by (simp add: create_wpa_config_def)

end
